theory Spec2Isabelle
  imports Complex_Main "HOL-Library.Char_ord" "HOL-Library.List_Lexorder"
begin

section \<open>Text primitives used by the shader assembler\<close>

text \<open>
  The assembler (\<^verbatim>\<open>shaders.cpp\<close>) works on \<^verbatim>\<open>QString\<close> values.  A \<^verbatim>\<open>QString\<close> is modelled
  by \<^typ>\<open>string\<close>, one \<^typ>\<open>char\<close> per \<^verbatim>\<open>QChar\<close>; the development is about ASCII shader text,
  where the two coincide.  \<^verbatim>\<open>QChar::isSpace\<close> on ASCII is the set of the six characters below.
\<close>

definition is_space :: "char \<Rightarrow> bool" where
  "is_space c \<longleftrightarrow>
     c = CHR 0x09 \<or> c = CHR 0x0A \<or> c = CHR 0x0B \<or> c = CHR 0x0C \<or> c = CHR 0x0D \<or> c = CHR '' ''"

text \<open>\<^verbatim>\<open>QString::startsWith\<close> and \<^verbatim>\<open>QString::endsWith\<close>.\<close>

definition startsWith :: "string \<Rightarrow> string \<Rightarrow> bool" where
  "startsWith s p \<longleftrightarrow> take (length p) s = p"

definition endsWith :: "string \<Rightarrow> string \<Rightarrow> bool" where
  "endsWith s p \<longleftrightarrow> length p \<le> length s \<and> drop (length s - length p) s = p"

text \<open>
  \<^verbatim>\<open>QString::simplified\<close>: whitespace is removed from both ends and every internal run of
  whitespace becomes one space.  The flag of \<open>simplified_from\<close> records a pending run.
\<close>

fun simplified_from :: "bool \<Rightarrow> string \<Rightarrow> string" where
  "simplified_from pending [] = []"
| "simplified_from pending (c # cs) =
     (if is_space c then simplified_from True cs
      else if pending then CHR '' '' # c # simplified_from False cs
      else c # simplified_from False cs)"

definition simplified :: "string \<Rightarrow> string" where
  "simplified s = simplified_from False (dropWhile is_space s)"

text \<open>
  \<^verbatim>\<open>QTextStream::readLine\<close>, called until it returns a null string: a line ends at a line
  feed, the line feed and a carriage return right before it are not part of the line, a
  carriage return that ends the text is dropped, and text after the last line feed is a
  line of its own when it is not empty.
\<close>

definition strip_cr :: "string \<Rightarrow> string" where
  "strip_cr s = (if s \<noteq> [] \<and> last s = CHR 0x0D then butlast s else s)"

fun read_lines :: "string \<Rightarrow> string \<Rightarrow> string list" where
  "read_lines cur [] = (if cur = [] then [] else [strip_cr cur])"
| "read_lines cur (c # cs) =
     (if c = CHR 0x0A then strip_cr cur # read_lines [] cs else read_lines (cur @ [c]) cs)"

definition readLines :: "string \<Rightarrow> string list" where
  "readLines src = read_lines [] src"

text \<open>Decimal output of \<^verbatim>\<open>QString::arg(int)\<close>, \<^verbatim>\<open>QString::number\<close> and \<^verbatim>\<open>std::to_string\<close>.\<close>

definition digit :: "nat \<Rightarrow> char" where
  "digit n = ''0123456789'' ! n"

fun toDecimal :: "nat \<Rightarrow> string" where
  "toDecimal n = (if n < 10 then [digit n] else toDecimal (n div 10) @ [digit (n mod 10)])"

declare toDecimal.simps [simp del]

definition to_string :: "int \<Rightarrow> string" where
  "to_string i = (if i < 0 then CHR ''-'' # toDecimal (nat (- i)) else toDecimal (nat i))"

section \<open>Errors\<close>

text \<open>
  Every failure of the generator is the exception \<^verbatim>\<open>MustQuit\<close>, thrown after a message on
  the error stream.  The constructors name the throwing site (the message).  The last one
  is not an exception of the program: it stands for an \<^verbatim>\<open>assert\<close> that fails.
\<close>

datatype must_quit =
    ShaderOpenError string
  | IncludeSyntaxError string nat
  | IncludeSuffixError string nat
  | RecursionDepthExceeded
  | ShaderCompileError string
  | ShaderLinkError string
  | AssertionFailed

section \<open>Header inclusion\<close>

text \<open>
  \<^verbatim>\<open>getShaderSrc\<close> opens the file below the shader directory that belongs to the running
  binary.  The directory is a partial map from file names to contents; a name outside its
  domain is a file that cannot be opened.
\<close>

definition getShaderSrc :: "(string \<rightharpoonup> string) \<Rightarrow> string \<Rightarrow> must_quit + string" where
  "getShaderSrc shaderDir fileName =
     (case shaderDir fileName of None \<Rightarrow> Inl (ShaderOpenError fileName) | Some text \<Rightarrow> Inr text)"

text \<open>
  The two header names are not defined in the files modelled here; the generated sources
  include \<^verbatim>\<open>const.h.glsl\<close> by this name.

  Modelled from the spec: the values of \<^verbatim>\<open>CONSTANTS_HEADER_FILENAME\<close> and
  \<^verbatim>\<open>DENSITIES_HEADER_FILENAME\<close>.
\<close>

definition CONSTANTS_HEADER_FILENAME :: string where
  "CONSTANTS_HEADER_FILENAME = ''const.h.glsl''"

definition DENSITIES_HEADER_FILENAME :: string where
  "DENSITIES_HEADER_FILENAME = ''densities.h.glsl''"

text \<open>
  The regular expression \<^verbatim>\<open>^#include "([^"]+)"$\<close> under \<^verbatim>\<open>exactMatch\<close>: the line is
  \<^verbatim>\<open>#include "\<close>, a non-empty name without a double quote, and a closing double quote.
  The result is the captured name.
\<close>

definition includePattern :: "string \<Rightarrow> string option" where
  \<open>includePattern line =
     (let rest = drop 10 line in
      if take 10 line = ''#include "'' \<and> rest \<noteq> [] \<and> last rest = CHR 0x22
         \<and> butlast rest \<noteq> [] \<and> CHR 0x22 \<notin> set (butlast rest)
      then Some (butlast rest) else None)\<close>

definition lineDirectiveBefore :: "nat \<Rightarrow> string \<Rightarrow> string" where
  "lineDirectiveBefore headerNumber includeFileName =
     ''#line 1 '' @ toDecimal headerNumber @ '' // '' @ includeFileName @ ''\<newline>''"

definition lineDirectiveAfter :: "nat \<Rightarrow> string \<Rightarrow> string" where
  "lineDirectiveAfter nextLine filename =
     ''#line '' @ toDecimal nextLine @ '' 0 // '' @ filename @ ''\<newline>''"

text \<open>
  The header chosen in \<^verbatim>\<open>withHeadersIncluded\<close>: the two generated strings for their names,
  the reader for every other name.
\<close>

definition resolveHeader ::
  "(string \<Rightarrow> must_quit + string) \<Rightarrow> string \<Rightarrow> string \<Rightarrow> string \<Rightarrow> must_quit + string" where
  "resolveHeader rd ch dh includeFileName =
     (if includeFileName = CONSTANTS_HEADER_FILENAME then Inr ch
      else if includeFileName = DENSITIES_HEADER_FILENAME then Inr dh
      else rd includeFileName)"

text \<open>
  \<^verbatim>\<open>withHeadersIncluded\<close>.  The reader \<open>rd\<close> is the \<^verbatim>\<open>getShaderSrc\<close> in force, \<open>ch\<close> and
  \<open>dh\<close> are the global strings \<^verbatim>\<open>constantsHeader\<close> and \<^verbatim>\<open>densitiesHeader\<close>.  The loop carries
  \<^verbatim>\<open>lineNumber\<close>, \<^verbatim>\<open>headerNumber\<close> and \<^verbatim>\<open>newSrc\<close>.  The counters are C++ \<^verbatim>\<open>int\<close>s that start
  at 1 and grow by one per line; a \<^verbatim>\<open>QString\<close> holds fewer than \<open>2^31\<close> characters, so they
  do not overflow and are natural numbers here.
\<close>

fun includeLoop ::
  "(string \<Rightarrow> must_quit + string) \<Rightarrow> string \<Rightarrow> string \<Rightarrow> string \<Rightarrow>
   string list \<Rightarrow> nat \<Rightarrow> nat \<Rightarrow> string \<Rightarrow> must_quit + string" where
  "includeLoop rd ch dh filename [] lineNumber headerNumber newSrc = Inr newSrc"
| "includeLoop rd ch dh filename (line # rest) lineNumber headerNumber newSrc =
     (if \<not> startsWith (simplified line) (''#include '' @ [CHR 0x22])
      then includeLoop rd ch dh filename rest (lineNumber + 1) headerNumber
             (newSrc @ line @ ''\<newline>'')
      else case includePattern line of
        None \<Rightarrow> Inl (IncludeSyntaxError filename lineNumber)
      | Some includeFileName \<Rightarrow>
          if \<not> endsWith includeFileName ''.h.glsl''
          then Inl (IncludeSuffixError filename lineNumber)
          else case resolveHeader rd ch dh includeFileName of
            Inl e \<Rightarrow> Inl e
          | Inr header \<Rightarrow>
              includeLoop rd ch dh filename rest (lineNumber + 1) (headerNumber + 1)
                (newSrc @ lineDirectiveBefore headerNumber includeFileName @ header
                   @ lineDirectiveAfter (lineNumber + 1) filename))"

definition withHeadersIncluded ::
  "(string \<Rightarrow> must_quit + string) \<Rightarrow> string \<Rightarrow> string \<Rightarrow> string \<Rightarrow> string \<Rightarrow>
   must_quit + string" where
  "withHeadersIncluded rd ch dh src filename = includeLoop rd ch dh filename (readLines src) 1 1 []"

subsection \<open>The statement of include resolution in the words of the specification\<close>










section \<open>Discovery of the fragment sources to link with\<close>

text \<open>The constant \<^verbatim>\<open>maxRecursionDepth\<close> of \<^verbatim>\<open>getShaderFileNamesToLinkWith\<close>.\<close>

definition maxRecursionDepth :: nat where
  "maxRecursionDepth = 50"

text \<open>
  The regular expression \<^verbatim>\<open>^#include "([^"]+)(\.h\.glsl)"$\<close> under \<^verbatim>\<open>exactMatch\<close>; the result
  is the first capture, the name of the header without its suffix of seven characters.
\<close>

definition companionPattern :: "string \<Rightarrow> string option" where
  "companionPattern line =
     (case includePattern line of
        None \<Rightarrow> None
      | Some hname \<Rightarrow>
          if endsWith hname ''.h.glsl'' \<and> 7 < length hname
          then Some (take (length hname - 7) hname) else None)"

text \<open>
  \<^verbatim>\<open>getShaderFileNamesToLinkWith\<close> with its loop over the lines of the file, \<open>scanIncludes\<close>,
  which carries the set \<^verbatim>\<open>filenames\<close>.  The reader \<open>rd\<close> is \<^verbatim>\<open>getShaderSrc\<close>; the set
  \<^verbatim>\<open>internalShaders\<close> is defined outside the files modelled here and is a parameter.  The
  recursion ends because the depth grows with every nested call and a call beyond the
  maximal depth returns at once.
\<close>

function getShaderFileNamesToLinkWith ::
    "(string \<Rightarrow> must_quit + string) \<Rightarrow> string set \<Rightarrow> string \<Rightarrow> nat \<Rightarrow> must_quit + string set"
  and scanIncludes ::
    "(string \<Rightarrow> must_quit + string) \<Rightarrow> string set \<Rightarrow> string \<Rightarrow> nat \<Rightarrow>
     string list \<Rightarrow> string set \<Rightarrow> must_quit + string set" where
  "getShaderFileNamesToLinkWith rd internalShaders filename recursionDepth =
     (if recursionDepth > maxRecursionDepth then Inl RecursionDepthExceeded
      else case rd filename of
        Inl e \<Rightarrow> Inl e
      | Inr shaderSrc \<Rightarrow>
          scanIncludes rd internalShaders filename recursionDepth (readLines shaderSrc) {})"
| "scanIncludes rd internalShaders filename recursionDepth [] filenames = Inr filenames"
| "scanIncludes rd internalShaders filename recursionDepth (line # rest) filenames =
     (case companionPattern line of
        None \<Rightarrow> scanIncludes rd internalShaders filename recursionDepth rest filenames
      | Some includeFileBaseName \<Rightarrow>
          if includeFileBaseName @ ''.h.glsl'' = CONSTANTS_HEADER_FILENAME
          then scanIncludes rd internalShaders filename recursionDepth rest filenames
          else if includeFileBaseName @ ''.frag'' \<notin> internalShaders
                  \<and> includeFileBaseName @ ''.frag'' \<noteq> filename
          then (case getShaderFileNamesToLinkWith rd internalShaders
                       (includeFileBaseName @ ''.frag'') (recursionDepth + 1) of
                  Inl e \<Rightarrow> Inl e
                | Inr extraFileNames \<Rightarrow>
                    scanIncludes rd internalShaders filename recursionDepth rest
                      (insert (includeFileBaseName @ ''.frag'') filenames \<union> extraFileNames))
          else scanIncludes rd internalShaders filename recursionDepth rest
                 (insert (includeFileBaseName @ ''.frag'') filenames))"
  by pat_completeness auto

termination
  by (relation "measures
        [\<lambda>x. case x of Inl (rd, internal, fn, d) \<Rightarrow> 52 - d
                      | Inr (rd, internal, fn, d, ls, acc) \<Rightarrow> 51 - d,
         \<lambda>x. case x of Inl (rd, internal, fn, d) \<Rightarrow> 0
                      | Inr (rd, internal, fn, d, ls, acc) \<Rightarrow> Suc (length ls)]")
     (auto simp: maxRecursionDepth_def)

declare getShaderFileNamesToLinkWith.simps [simp del]

subsection \<open>The graph that the traversal follows\<close>

text \<open>
  The companion source that the traversal enters for a line of the file \<open>filename\<close>: the
  line includes a header other than the constants header, and the companion is neither an
  internal shader nor the file itself.
\<close>

definition followedCompanion :: "string set \<Rightarrow> string \<Rightarrow> string \<Rightarrow> string option" where
  "followedCompanion internalShaders filename line =
     (case companionPattern line of
        None \<Rightarrow> None
      | Some base \<Rightarrow>
          if base @ ''.h.glsl'' = CONSTANTS_HEADER_FILENAME then None
          else if base @ ''.frag'' \<notin> internalShaders \<and> base @ ''.frag'' \<noteq> filename
          then Some (base @ ''.frag'') else None)"

text \<open>An edge of the graph: a readable file has a line whose companion is entered.\<close>

definition follows ::
  "(string \<Rightarrow> must_quit + string) \<Rightarrow> string set \<Rightarrow> string \<Rightarrow> string \<Rightarrow> bool" where
  "follows rd internalShaders f g \<longleftrightarrow>
     (\<exists>src. rd f = Inr src \<and>
        (\<exists>line \<in> set (readLines src). followedCompanion internalShaders f line = Some g))"

text \<open>\<open>chain f n\<close>: a path of \<open>n\<close> edges starts at \<open>f\<close>.\<close>

inductive chain ::
  "(string \<Rightarrow> must_quit + string) \<Rightarrow> string set \<Rightarrow> string \<Rightarrow> nat \<Rightarrow> bool"
  for rd :: "string \<Rightarrow> must_quit + string" and internalShaders :: "string set" where
  chain_0: "chain rd internalShaders f 0"
| chain_Suc: "follows rd internalShaders f g \<Longrightarrow> chain rd internalShaders g n \<Longrightarrow>
     chain rd internalShaders f (Suc n)"






section \<open>Compilation of one shader\<close>

text \<open>The digits and the word characters (\<^verbatim>\<open>\b\<close> of \<^verbatim>\<open>QRegExp\<close>) of ASCII.\<close>

definition is_digit :: "char \<Rightarrow> bool" where
  "is_digit c \<longleftrightarrow> c \<in> set ''0123456789''"

definition is_word :: "char \<Rightarrow> bool" where
  "is_word c \<longleftrightarrow>
     c \<in> set ''abcdefghijklmnopqrstuvwxyzABCDEFGHIJKLMNOPQRSTUVWXYZ0123456789_''"

text \<open>
  The regular expression \<^verbatim>\<open>^\s*#\s*line\s+([0-9]+)\b.*\<close> under \<^verbatim>\<open>exactMatch\<close>; the result is
  the captured run of digits.  The run is the longest one (a position between two digits
  is no word boundary), and the boundary after it asks for the end of the line or a
  character that is no word character.
\<close>

definition lineChanger :: "string \<Rightarrow> string option" where
  "lineChanger line =
     (case dropWhile is_space line of
        [] \<Rightarrow> None
      | c # afterHash \<Rightarrow>
          if c \<noteq> CHR ''#'' then None
          else let s = dropWhile is_space afterHash in
            if take 4 s \<noteq> ''line'' then None
            else let t = drop 4 s in
              if t = [] \<or> \<not> is_space (hd t) then None
              else let u = dropWhile is_space t;
                       digits = takeWhile is_digit u;
                       r = dropWhile is_digit u in
                if digits \<noteq> [] \<and> (r = [] \<or> \<not> is_word (hd r)) then Some digits else None)"

text \<open>
  \<^verbatim>\<open>QString::toInt\<close> on a run of digits: the value, or 0 when it does not fit an \<^verbatim>\<open>int\<close>.
\<close>

definition digitValue :: "char \<Rightarrow> nat" where
  "digitValue c = of_char c - 48"

definition decimalValue :: "string \<Rightarrow> nat" where
  "decimalValue ds = foldl (\<lambda>a c. 10 * a + digitValue c) 0 ds"

definition toInt :: "string \<Rightarrow> int" where
  "toInt ds = (if decimalValue ds \<le> 2147483647 then int (decimalValue ds) else 0)"

text \<open>
  What \<^verbatim>\<open>compileShader\<close> writes to the error stream: a message, or a line of the source
  with its number.  The width of the number column (\<^verbatim>\<open>std::setw\<close> of a floating-point
  expression) is presentation and is not part of the model.
\<close>

datatype stderr_item = Message string | SourceLine int string

text \<open>
  The loop that prints the source.  After a line that matches \<open>lineChanger\<close> the counter
  is set to the number of the directive minus one and then incremented by the loop; after
  any other line it is incremented.  The counter is a C++ \<^verbatim>\<open>int\<close>; the model is exact while
  it stays below \<open>2^31\<close>.
\<close>

fun printSource :: "int \<Rightarrow> string list \<Rightarrow> stderr_item list" where
  "printSource lineNumber [] = []"
| "printSource lineNumber (line # rest) =
     SourceLine lineNumber line #
       (case lineChanger line of
          Some digits \<Rightarrow> printSource ((toInt digits - 1) + 1) rest
        | None \<Rightarrow> printSource (lineNumber + 1) rest)"

datatype shader_type = Vertex | Fragment | Geometry

text \<open>
  A compiled shader object: its stage, the description it was compiled under, the source
  handed to \<^verbatim>\<open>compileShader\<close> and the assembled text that the GPU compiler accepted.
\<close>

record shader =
  shaderType :: shader_type
  shaderDescription :: string
  shaderInput :: string
  shaderText :: string

text \<open>
  \<^verbatim>\<open>compileShader(type, source, description)\<close>.  The GPU compiler
  (\<^verbatim>\<open>QOpenGLShader::compileSourceCode\<close> and \<^verbatim>\<open>log\<close>) is the parameter \<open>glsl\<close>: it
  says whether it accepts a text and gives its log.  The result is the output on the error
  stream and the shader or the exception.
\<close>

definition ruler :: string where
  "ruler = ''________________________________________________\<newline>''"

definition compileShader ::
  "(shader_type \<Rightarrow> string \<Rightarrow> bool \<times> string) \<Rightarrow> (string \<Rightarrow> must_quit + string) \<Rightarrow> string \<Rightarrow> string \<Rightarrow>
   shader_type \<Rightarrow> string \<Rightarrow> string \<Rightarrow> stderr_item list \<times> (must_quit + shader)" where
  "compileShader glsl rd ch dh type source description =
     (case withHeadersIncluded rd ch dh source description of
        Inl e \<Rightarrow> ([], Inl e)
      | Inr assembled \<Rightarrow>
          if \<not> fst (glsl type assembled)
          then ([Message (''Failed to compile '' @ description @ '':\<newline>''
                           @ snd (glsl type assembled) @ ''\<newline>''),
                 Message (''Source of the shader:\<newline>'' @ ruler)]
                @ printSource 1 (readLines assembled) @ [Message ruler],
                Inl (ShaderCompileError description))
          else ((if snd (glsl type assembled) \<noteq> []
                 then [Message (''Warnings while compiling '' @ description @ '':\<newline>''
                                 @ snd (glsl type assembled) @ ''\<newline>'')]
                 else []),
                Inr \<lparr>shaderType = type, shaderDescription = description,
                     shaderInput = source, shaderText = assembled\<rparr>))"

text \<open>\<^verbatim>\<open>compileShader(type, filename)\<close>.\<close>

definition compileShaderFile ::
  "(shader_type \<Rightarrow> string \<Rightarrow> bool \<times> string) \<Rightarrow> (string \<Rightarrow> must_quit + string) \<Rightarrow> string \<Rightarrow> string \<Rightarrow>
   shader_type \<Rightarrow> string \<Rightarrow> stderr_item list \<times> (must_quit + shader)" where
  "compileShaderFile glsl rd ch dh type filename =
     (case rd filename of
        Inl e \<Rightarrow> ([], Inl e)
      | Inr src \<Rightarrow> compileShader glsl rd ch dh type src filename)"


section \<open>The precomputation scheduler\<close>

text \<open>
  The driver (\<^verbatim>\<open>generator/main.cpp\<close>) works on global state: the OpenGL context, the table
  of compiled shaders and the table of virtual source files.  The model threads one record
  through the functions.  Of the OpenGL state it keeps what decides which texture a pass
  writes and how: the bound framebuffer, the colour attachments and draw buffers of each
  framebuffer, the blend switch of each draw buffer and the blend function.  Viewports,
  uniforms, texture units and \<^verbatim>\<open>glFinish\<close> are left out.
\<close>

datatype texture =
    TEX_TRANSMITTANCE | TEX_DELTA_IRRADIANCE | TEX_IRRADIANCE
  | TEX_DELTA_SCATTERING | TEX_DELTA_SCATTERING_DENSITY | TEX_MULTIPLE_SCATTERING

datatype fbo = FBO_TRANSMITTANCE | FBO_IRRADIANCE | FBO_DELTA_SCATTERING | FBO_MULTIPLE_SCATTERING

datatype blend_factor = GL_ZERO | GL_ONE

text \<open>
  The observable steps of a run.  \<open>Draw\<close> is one \<^verbatim>\<open>renderQuad\<close>: for each draw buffer with
  an attached texture, the texture and whether blending is enabled for that draw buffer,
  and the blend function in force.  \<open>SaveTexture\<close> is one call of \<^verbatim>\<open>saveTexture\<close>.
  \<open>ShaderUsed\<close> is one return of \<^verbatim>\<open>getOrCompileShader\<close>: the file name, the shader
  returned, and (a history variable) what \<^verbatim>\<open>getShaderSrc\<close> gives for the name at that
  moment.
\<close>

datatype event =
    Draw "(texture \<times> bool) list" "blend_factor \<times> blend_factor"
  | SaveTexture texture string
  | ShaderUsed string shader "must_quit + string"

record generator =
  boundFramebuffer :: "fbo option"
  colorAttachment :: "fbo \<Rightarrow> nat \<Rightarrow> texture option"
  drawBuffers :: "fbo \<Rightarrow> nat list"
  blendEnabled :: "nat \<Rightarrow> bool"
  blendFunc :: "blend_factor \<times> blend_factor"
  allShaders :: "string \<rightharpoonup> shader"
  virtualSourceFiles :: "string \<rightharpoonup> string"
  constantsHeader :: string
  densitiesHeader :: string
  events :: "event list"

text \<open>
  \<^verbatim>\<open>glm::vec4\<close>, with the single-precision components idealised as real numbers, and
  \<^verbatim>\<open>ScattererDescription\<close>: the name, the GLSL text of the number density and the cross
  section as a function of the four wavelengths of a set.
\<close>

datatype vec4 = Vec4 real real real real

record ScattererDescription =
  name :: string
  numberDensity :: string
  crossSection :: "vec4 \<Rightarrow> vec4"

text \<open>
  The globals that a run only reads, and the collaborators that are not in the files
  modelled here.  The six file-name constants, the text generators of the version of the
  assembler that this driver calls, the token replacement of \<^verbatim>\<open>QString::replace\<close> with a
  regular expression, \<^verbatim>\<open>toString\<close> of a vector, the GPU compiler and the linker are
  parameters.  An absorber is described like a scatterer.
\<close>

record config =
  scatterers :: "ScattererDescription list"
  absorbers :: "ScattererDescription list"
  allWavelengths :: "vec4 list"
  saveResultAsRadiance :: bool
  scatteringOrdersToCompute :: int
  textureOutputDir :: string
  scatTexDepth :: nat
  dbgSaveGroundIrradiance :: bool
  dbgSaveScatDensity :: bool
  dbgSaveScatDensityOrder2FromGround :: bool
  dbgSaveAccumScattering :: bool
  dbgSaveDeltaScattering :: bool
  shaderDir :: "string \<rightharpoonup> string"
  internalShaders :: "string set"
  glslCompiler :: "shader_type \<Rightarrow> string \<Rightarrow> bool \<times> string"
  programLinks :: "shader list \<Rightarrow> bool"
  DENSITIES_SHADER_FILENAME :: string
  PHASE_FUNCTIONS_SHADER_FILENAME :: string
  COMPUTE_SCATTERING_DENSITY_FILENAME :: string
  COMPUTE_INDIRECT_IRRADIANCE_FILENAME :: string
  COMPUTE_TRANSMITTANCE_SHADER_FILENAME :: string
  TOTAL_SCATTERING_COEFFICIENT_SHADER_FILENAME :: string
  makeScattererDensityFunctionsSrc :: string
  makePhaseFunctionsSrc :: string
  makeTotalScatteringCoefSrc :: string
  makeTransmittanceComputeFunctionsSrcText :: "vec4 \<Rightarrow> string"
  constHeaderText :: "vec4 \<Rightarrow> string"
  toString :: "vec4 \<Rightarrow> string"
  replaceToken :: "string \<Rightarrow> string \<Rightarrow> string \<Rightarrow> string"

text \<open>
  A function of the driver returns normally or leaves by the exception \<^verbatim>\<open>MustQuit\<close>; the
  state reached is kept in both cases.  \<open>andThen\<close> is sequencing: nothing runs after an
  exception, and no function of the driver but \<^verbatim>\<open>main\<close> has a handler.
\<close>

datatype outcome = Done generator | Quit must_quit generator

fun andThen :: "outcome \<Rightarrow> (generator \<Rightarrow> outcome) \<Rightarrow> outcome" where
  "andThen (Done s) f = f s"
| "andThen (Quit e s) f = Quit e s"

fun stateOf :: "outcome \<Rightarrow> generator" where
  "stateOf (Done s) = s"
| "stateOf (Quit e s) = s"

text \<open>A \<^verbatim>\<open>for\<close> loop over a list of values whose body may throw.\<close>

fun forEach :: "'a list \<Rightarrow> ('a \<Rightarrow> generator \<Rightarrow> outcome) \<Rightarrow> generator \<Rightarrow> outcome" where
  "forEach [] body s = Done s"
| "forEach (x # xs) body s = andThen (body x s) (forEach xs body)"

subsection \<open>OpenGL calls\<close>

definition glBindFramebuffer :: "fbo option \<Rightarrow> generator \<Rightarrow> generator" where
  "glBindFramebuffer f s = s\<lparr>boundFramebuffer := f\<rparr>"

definition glFramebufferTexture :: "nat \<Rightarrow> texture \<Rightarrow> generator \<Rightarrow> generator" where
  "glFramebufferTexture attachment tex s =
     (case boundFramebuffer s of
        None \<Rightarrow> s
      | Some f \<Rightarrow> s\<lparr>colorAttachment := (colorAttachment s)(f := (colorAttachment s f)(attachment \<mapsto> tex))\<rparr>)"

definition setDrawBuffers :: "nat list \<Rightarrow> generator \<Rightarrow> generator" where
  "setDrawBuffers bufs s =
     (case boundFramebuffer s of
        None \<Rightarrow> s
      | Some f \<Rightarrow> s\<lparr>drawBuffers := (drawBuffers s)(f := bufs)\<rparr>)"

text \<open>
  \<^verbatim>\<open>glEnable(GL_BLEND)\<close> and \<^verbatim>\<open>glDisable(GL_BLEND)\<close> set the switch of every draw buffer,
  \<^verbatim>\<open>glEnablei\<close> and \<^verbatim>\<open>glDisablei\<close> the switch of one.
\<close>

definition glEnable_BLEND :: "generator \<Rightarrow> generator" where
  "glEnable_BLEND s = s\<lparr>blendEnabled := (\<lambda>i. True)\<rparr>"

definition glDisable_BLEND :: "generator \<Rightarrow> generator" where
  "glDisable_BLEND s = s\<lparr>blendEnabled := (\<lambda>i. False)\<rparr>"

definition glEnablei_BLEND :: "nat \<Rightarrow> generator \<Rightarrow> generator" where
  "glEnablei_BLEND i s = s\<lparr>blendEnabled := (blendEnabled s)(i := True)\<rparr>"

definition glDisablei_BLEND :: "nat \<Rightarrow> generator \<Rightarrow> generator" where
  "glDisablei_BLEND i s = s\<lparr>blendEnabled := (blendEnabled s)(i := False)\<rparr>"

definition glBlendFunc :: "blend_factor \<Rightarrow> blend_factor \<Rightarrow> generator \<Rightarrow> generator" where
  "glBlendFunc sfactor dfactor s = s\<lparr>blendFunc := (sfactor, dfactor)\<rparr>"

text \<open>The textures a draw call writes, with the blend switch of their draw buffers.\<close>

definition renderTargets :: "generator \<Rightarrow> (texture \<times> bool) list" where
  "renderTargets s =
     (case boundFramebuffer s of
        None \<Rightarrow> []
      | Some f \<Rightarrow>
          concat (map (\<lambda>j. case colorAttachment s f (drawBuffers s f ! j) of
                              None \<Rightarrow> []
                            | Some tex \<Rightarrow> [(tex, blendEnabled s j)])
                      [0..<length (drawBuffers s f)]))"

definition renderQuad :: "generator \<Rightarrow> generator" where
  "renderQuad s = s\<lparr>events := events s @ [Draw (renderTargets s) (blendFunc s)]\<rparr>"

text \<open>\<^verbatim>\<open>render3DTexLayers\<close>: one \<^verbatim>\<open>renderQuad\<close> per layer of the 3D texture.\<close>

definition render3DTexLayers :: "config \<Rightarrow> generator \<Rightarrow> generator" where
  "render3DTexLayers cfg s = fold (\<lambda>layer. renderQuad) [0..<scatTexDepth cfg] s"

definition saveTexture :: "texture \<Rightarrow> string \<Rightarrow> generator \<Rightarrow> generator" where
  "saveTexture tex path s = s\<lparr>events := events s @ [SaveTexture tex path]\<rparr>"

subsection \<open>The shader tables\<close>

text \<open>
  Modelled from the spec: the \<^verbatim>\<open>getShaderSrc\<close> of the version of the assembler that this
  driver calls is not in the files modelled here; a logical file name stands for its
  virtual source file when there is one and for the file of the shader directory
  otherwise, and with \<^verbatim>\<open>IgnoreCache\<close> it stands for the file of the shader directory.
\<close>

definition currentSource :: "config \<Rightarrow> generator \<Rightarrow> string \<Rightarrow> must_quit + string" where
  "currentSource cfg s filename =
     (case virtualSourceFiles s filename of
        Some text \<Rightarrow> Inr text
      | None \<Rightarrow> getShaderSrc (shaderDir cfg) filename)"

text \<open>\<^verbatim>\<open>allShaders.erase(f)\<close>, \<^verbatim>\<open>virtualSourceFiles[f]=text\<close> and \<^verbatim>\<open>allShaders.clear()\<close>.\<close>

definition eraseShader :: "string \<Rightarrow> generator \<Rightarrow> generator" where
  "eraseShader fileName s = s\<lparr>allShaders := (allShaders s)(fileName := None)\<rparr>"

definition setVirtualSourceFile :: "string \<Rightarrow> string \<Rightarrow> generator \<Rightarrow> generator" where
  "setVirtualSourceFile fileName text s =
     s\<lparr>virtualSourceFiles := (virtualSourceFiles s)(fileName \<mapsto> text)\<rparr>"

definition clearShaders :: "generator \<Rightarrow> generator" where
  "clearShaders s = s\<lparr>allShaders := Map.empty\<rparr>"

text \<open>\<^verbatim>\<open>getOrCompileShader\<close>: the cached shader when the name is in the table, a new one else.\<close>

definition getOrCompileShader :: "config \<Rightarrow> shader_type \<Rightarrow> string \<Rightarrow> generator \<Rightarrow> outcome" where
  "getOrCompileShader cfg type filename s =
     (case allShaders s filename of
        Some sh \<Rightarrow> Done (s\<lparr>events := events s @ [ShaderUsed filename sh (currentSource cfg s filename)]\<rparr>)
      | None \<Rightarrow>
          (case snd (compileShaderFile (glslCompiler cfg) (currentSource cfg s)
                       (constantsHeader s) (densitiesHeader s) type filename) of
             Inl e \<Rightarrow> Quit e s
           | Inr sh \<Rightarrow>
               Done (s\<lparr>allShaders := (allShaders s)(filename \<mapsto> sh),
                        events := events s @ [ShaderUsed filename sh (currentSource cfg s filename)]\<rparr>)))"

text \<open>The shaders that \<^verbatim>\<open>addShader\<close> received since the state \<open>s0\<close>.\<close>

definition addedShaders :: "generator \<Rightarrow> generator \<Rightarrow> shader list" where
  "addedShaders s0 s =
     concat (map (\<lambda>e. case e of ShaderUsed filename sh cur \<Rightarrow> [sh] | _ \<Rightarrow> [])
                 (drop (length (events s0)) (events s)))"

text \<open>
  \<^verbatim>\<open>compileShaderProgram\<close>: the fragment sources found by the traversal and the main source,
  in the order of the \<^verbatim>\<open>std::set\<close>, then the vertex shader and, when asked for, the geometry
  shader; then the link, which the linker decides from the shaders of the program.
\<close>

definition compileShaderProgram :: "config \<Rightarrow> string \<Rightarrow> bool \<Rightarrow> generator \<Rightarrow> outcome" where
  "compileShaderProgram cfg mainSrcFileName useGeomShader s0 =
     (case getShaderFileNamesToLinkWith (currentSource cfg s0) (internalShaders cfg) mainSrcFileName 0 of
        Inl e \<Rightarrow> Quit e s0
      | Inr names \<Rightarrow>
          andThen (forEach (sorted_list_of_set (insert mainSrcFileName names))
                     (getOrCompileShader cfg Fragment) s0)
           (\<lambda>s. andThen (getOrCompileShader cfg Vertex ''shader.vert'' s)
           (\<lambda>s. andThen (if useGeomShader then getOrCompileShader cfg Geometry ''shader.geom'' s
                         else Done s)
           (\<lambda>s. if programLinks cfg (addedShaders s0 s) then Done s
                 else Quit (ShaderLinkError mainSrcFileName) s))))"

subsection \<open>The passes\<close>

text \<open>File names are built with \<^verbatim>\<open>std::to_string\<close>; \<open>wlset\<close> is the common suffix.\<close>

definition wlset :: "nat \<Rightarrow> string" where
  "wlset texIndex = ''-wlset'' @ to_string (int texIndex) @ ''.f32''"

definition saveIrradiance :: "config \<Rightarrow> int \<Rightarrow> nat \<Rightarrow> generator \<Rightarrow> generator" where
  "saveIrradiance cfg scatteringOrder texIndex s =
     (if \<not> dbgSaveGroundIrradiance cfg then s
      else saveTexture TEX_IRRADIANCE
             (textureOutputDir cfg @ ''/irradiance-accum-order'' @ to_string (scatteringOrder - 1)
                @ wlset texIndex)
           (saveTexture TEX_DELTA_IRRADIANCE
             (textureOutputDir cfg @ ''/irradiance-delta-order'' @ to_string (scatteringOrder - 1)
                @ wlset texIndex) s))"

definition saveScatteringDensity :: "config \<Rightarrow> int \<Rightarrow> nat \<Rightarrow> generator \<Rightarrow> generator" where
  "saveScatteringDensity cfg scatteringOrder texIndex s =
     (if \<not> dbgSaveScatDensity cfg then s
      else saveTexture TEX_DELTA_SCATTERING_DENSITY
             (textureOutputDir cfg @ ''/scattering-density'' @ to_string scatteringOrder
                @ wlset texIndex) s)"

definition computeTransmittance :: "config \<Rightarrow> nat \<Rightarrow> generator \<Rightarrow> outcome" where
  "computeTransmittance cfg texIndex s =
     andThen (compileShaderProgram cfg ''compute-transmittance.frag'' False s)
       (\<lambda>s. Done
          (glBindFramebuffer None
          (saveTexture TEX_TRANSMITTANCE (textureOutputDir cfg @ ''/transmittance'' @ wlset texIndex)
          (renderQuad
          (glFramebufferTexture 0 TEX_TRANSMITTANCE
          (glBindFramebuffer (Some FBO_TRANSMITTANCE) s))))))"

definition computeDirectGroundIrradiance :: "config \<Rightarrow> nat \<Rightarrow> generator \<Rightarrow> outcome" where
  "computeDirectGroundIrradiance cfg texIndex s =
     andThen (compileShaderProgram cfg ''compute-direct-irradiance.frag'' False s)
       (\<lambda>s. Done
          (glBindFramebuffer None
          (saveIrradiance cfg 1 texIndex
          (renderQuad
          (setDrawBuffers [0, 1]
          (glFramebufferTexture 1 TEX_IRRADIANCE
          (glFramebufferTexture 0 TEX_DELTA_IRRADIANCE
          (glBindFramebuffer (Some FBO_IRRADIANCE) s))))))))"

definition computeSingleScattering ::
  "config \<Rightarrow> nat \<Rightarrow> ScattererDescription \<Rightarrow> generator \<Rightarrow> outcome" where
  "computeSingleScattering cfg texIndex scatterer s =
     (let s = glFramebufferTexture 0 TEX_DELTA_SCATTERING
                (glBindFramebuffer (Some FBO_DELTA_SCATTERING) s);
          src = makeScattererDensityFunctionsSrc cfg
                @ ''float scattererDensity(float alt) { return scattererNumberDensity_''
                @ name scatterer @ ''(alt); }\<newline>''
                @ ''vec4 scatteringCrossSection() { return ''
                @ toString cfg (crossSection scatterer (allWavelengths cfg ! texIndex)) @ ''; }\<newline>'';
          s = setVirtualSourceFile (DENSITIES_SHADER_FILENAME cfg) src
                (eraseShader (DENSITIES_SHADER_FILENAME cfg) s)
      in andThen (compileShaderProgram cfg ''compute-single-scattering.frag'' True s)
           (\<lambda>s. Done (glBindFramebuffer None (render3DTexLayers cfg s))))"

text \<open>
  The source of a kernel specialised by token replacement:
  \<^verbatim>\<open>getShaderSrc(name, IgnoreCache{}).replace(...)\<close>, which throws when the file cannot be
  opened.
\<close>

definition scatteringDensitySrc :: "config \<Rightarrow> bool \<Rightarrow> int \<Rightarrow> must_quit + string" where
  "scatteringDensitySrc cfg fromGroundOnly scatteringOrder =
     (case getShaderSrc (shaderDir cfg) (COMPUTE_SCATTERING_DENSITY_FILENAME cfg) of
        Inl e \<Rightarrow> Inl e
      | Inr text \<Rightarrow>
          Inr (replaceToken cfg ''SCATTERING_ORDER'' (to_string scatteringOrder)
                (replaceToken cfg ''RADIATION_IS_FROM_GROUND_ONLY''
                   (if fromGroundOnly then ''true'' else ''false'') text)))"

definition indirectIrradianceSrc :: "config \<Rightarrow> int \<Rightarrow> must_quit + string" where
  "indirectIrradianceSrc cfg scatteringOrder =
     (case getShaderSrc (shaderDir cfg) (COMPUTE_INDIRECT_IRRADIANCE_FILENAME cfg) of
        Inl e \<Rightarrow> Inl e
      | Inr text \<Rightarrow> Inr (replaceToken cfg ''SCATTERING_ORDER'' (to_string (scatteringOrder - 1)) text))"

text \<open>
  The step that erases a cached shader, writes the virtual source file of the same name
  and compiles the program anew; the new text may fail to be produced.
\<close>

definition rewriteAndCompile ::
  "config \<Rightarrow> string \<Rightarrow> must_quit + string \<Rightarrow> bool \<Rightarrow> generator \<Rightarrow> outcome" where
  "rewriteAndCompile cfg fileName newText useGeomShader s =
     (let s = eraseShader fileName s in
      case newText of
        Inl e \<Rightarrow> Quit e s
      | Inr text \<Rightarrow>
          compileShaderProgram cfg fileName useGeomShader (setVirtualSourceFile fileName text s))"

definition currentPhaseFunctionOf :: "config \<Rightarrow> nat \<Rightarrow> string" where
  "currentPhaseFunctionOf cfg scattererIndex =
     makePhaseFunctionsSrc cfg
     @ ''vec4 currentPhaseFunction(float dotViewSun) { return phaseFunction_''
     @ name (scatterers cfg ! scattererIndex) @ ''(dotViewSun); }\<newline>''"

definition computeIndirectIrradianceOrder1 :: "config \<Rightarrow> nat \<Rightarrow> nat \<Rightarrow> generator \<Rightarrow> outcome" where
  "computeIndirectIrradianceOrder1 cfg texIndex scattererIndex s =
     (let s = glBindFramebuffer (Some FBO_IRRADIANCE) s;
          s = (if scattererIndex = 0 then glDisablei_BLEND 0 s else glEnablei_BLEND 0 s);
          s = glEnablei_BLEND 1 s;
          s = setVirtualSourceFile (PHASE_FUNCTIONS_SHADER_FILENAME cfg)
                (currentPhaseFunctionOf cfg scattererIndex)
                (eraseShader (PHASE_FUNCTIONS_SHADER_FILENAME cfg) s)
      in andThen (rewriteAndCompile cfg (COMPUTE_INDIRECT_IRRADIANCE_FILENAME cfg)
                    (indirectIrradianceSrc cfg 2) False s)
           (\<lambda>s. Done
              (glBindFramebuffer None
              (saveIrradiance cfg 2 texIndex
              (glDisable_BLEND
              (renderQuad s))))))"

text \<open>The body of the loop over the scatterers in \<^verbatim>\<open>computeScatteringDensityOrder2\<close>.\<close>

definition order2Scatterer :: "config \<Rightarrow> nat \<Rightarrow> nat \<Rightarrow> generator \<Rightarrow> outcome" where
  "order2Scatterer cfg texIndex scattererIndex s =
     andThen (computeSingleScattering cfg texIndex (scatterers cfg ! scattererIndex) s)
       (\<lambda>s. let s = glBindFramebuffer (Some FBO_MULTIPLE_SCATTERING) s;
                 s = setVirtualSourceFile (PHASE_FUNCTIONS_SHADER_FILENAME cfg)
                       (currentPhaseFunctionOf cfg scattererIndex)
                       (eraseShader (PHASE_FUNCTIONS_SHADER_FILENAME cfg) s)
             in andThen (rewriteAndCompile cfg (COMPUTE_SCATTERING_DENSITY_FILENAME cfg)
                           (scatteringDensitySrc cfg False 2) True s)
                  (\<lambda>s. computeIndirectIrradianceOrder1 cfg texIndex scattererIndex
                          (render3DTexLayers cfg (glEnable_BLEND s))))"

definition computeScatteringDensityOrder2 :: "config \<Rightarrow> nat \<Rightarrow> generator \<Rightarrow> outcome" where
  "computeScatteringDensityOrder2 cfg texIndex s =
     (let s = setVirtualSourceFile (DENSITIES_SHADER_FILENAME cfg) (makeScattererDensityFunctionsSrc cfg)
                (eraseShader (DENSITIES_SHADER_FILENAME cfg) s);
          s = setVirtualSourceFile (PHASE_FUNCTIONS_SHADER_FILENAME cfg)
                (makePhaseFunctionsSrc cfg
                 @ ''vec4 currentPhaseFunction(float dotViewSun) { return vec4(3.4028235e38); }\<newline>'')
                (eraseShader (PHASE_FUNCTIONS_SHADER_FILENAME cfg) s)
      in andThen (rewriteAndCompile cfg (COMPUTE_SCATTERING_DENSITY_FILENAME cfg)
                    (scatteringDensitySrc cfg True 2) True s)
           (\<lambda>s. let s = render3DTexLayers cfg
                           (glFramebufferTexture 0 TEX_DELTA_SCATTERING_DENSITY
                           (glBindFramebuffer (Some FBO_MULTIPLE_SCATTERING) s));
                     s = (if dbgSaveScatDensityOrder2FromGround cfg
                          then saveTexture TEX_DELTA_SCATTERING_DENSITY
                                 (textureOutputDir cfg @ ''/scattering-density2-from-ground''
                                    @ wlset texIndex) s
                          else s);
                     s = glBlendFunc GL_ONE GL_ONE s
                 in andThen (forEach [0..<length (scatterers cfg)] (order2Scatterer cfg texIndex) s)
                      (\<lambda>s. Done
                         (glBindFramebuffer None
                         (saveScatteringDensity cfg 2 texIndex
                         (glDisable_BLEND s))))))"

text \<open>
  An \<^verbatim>\<open>assert\<close> that fails ends the process; it is the exception \<open>AssertionFailed\<close> of the
  model.
\<close>

definition computeScatteringDensity :: "config \<Rightarrow> int \<Rightarrow> nat \<Rightarrow> generator \<Rightarrow> outcome" where
  "computeScatteringDensity cfg scatteringOrder texIndex s =
     (if \<not> scatteringOrder > 2 then Quit AssertionFailed s
      else let s = glFramebufferTexture 0 TEX_DELTA_SCATTERING_DENSITY
                     (glBindFramebuffer (Some FBO_MULTIPLE_SCATTERING) s)
           in andThen (rewriteAndCompile cfg (COMPUTE_SCATTERING_DENSITY_FILENAME cfg)
                         (scatteringDensitySrc cfg False scatteringOrder) True s)
                (\<lambda>s. Done
                   (glBindFramebuffer None
                   (saveScatteringDensity cfg scatteringOrder texIndex
                   (render3DTexLayers cfg s)))))"

definition computeIndirectIrradiance :: "config \<Rightarrow> int \<Rightarrow> nat \<Rightarrow> generator \<Rightarrow> outcome" where
  "computeIndirectIrradiance cfg scatteringOrder texIndex s =
     (if \<not> scatteringOrder > 2 then Quit AssertionFailed s
      else let s = glEnablei_BLEND 1
                     (glDisablei_BLEND 0
                     (glBindFramebuffer (Some FBO_IRRADIANCE) s))
           in andThen (rewriteAndCompile cfg (COMPUTE_INDIRECT_IRRADIANCE_FILENAME cfg)
                         (indirectIrradianceSrc cfg scatteringOrder) False s)
                (\<lambda>s. Done
                   (glBindFramebuffer None
                   (saveIrradiance cfg scatteringOrder texIndex
                   (glDisable_BLEND
                   (renderQuad s))))))"

text \<open>
  \<^verbatim>\<open>texIndex+1u==allWavelengths.size()\<close> is a comparison of an \<^verbatim>\<open>unsigned\<close> sum, which
  wraps at \<open>2^32\<close>, with the size.
\<close>

definition isLastWavelengthSet :: "config \<Rightarrow> nat \<Rightarrow> bool" where
  "isLastWavelengthSet cfg texIndex \<longleftrightarrow> (texIndex + 1) mod 2 ^ 32 = length (allWavelengths cfg)"

definition accumulateMultipleScattering :: "config \<Rightarrow> int \<Rightarrow> nat \<Rightarrow> generator \<Rightarrow> outcome" where
  "accumulateMultipleScattering cfg scatteringOrder texIndex s =
     (let s = (if scatteringOrder > 2 \<or> (texIndex > 0 \<and> \<not> saveResultAsRadiance cfg)
               then glEnable_BLEND s else glDisable_BLEND s);
          s = glFramebufferTexture 0 TEX_MULTIPLE_SCATTERING
                (glBindFramebuffer (Some FBO_MULTIPLE_SCATTERING) s)
      in andThen (compileShaderProgram cfg ''copy-scattering-texture.frag'' True s)
           (\<lambda>s. let s = glBindFramebuffer None
                           (glDisable_BLEND
                           (render3DTexLayers cfg s));
                     s = (if dbgSaveAccumScattering cfg
                          then saveTexture TEX_MULTIPLE_SCATTERING
                                 (textureOutputDir cfg @ ''/multiple-scattering-to-order''
                                    @ to_string scatteringOrder @ wlset texIndex) s
                          else s)
                 in Done
                      (if scatteringOrder = scatteringOrdersToCompute cfg
                          \<and> (isLastWavelengthSet cfg texIndex \<or> saveResultAsRadiance cfg)
                       then saveTexture TEX_MULTIPLE_SCATTERING
                              (if saveResultAsRadiance cfg
                               then textureOutputDir cfg @ ''/multiple-scattering'' @ wlset texIndex
                               else textureOutputDir cfg @ ''/multiple-scattering-xyzw.f32'') s
                       else s)))"

definition computeMultipleScatteringFromDensity :: "config \<Rightarrow> int \<Rightarrow> nat \<Rightarrow> generator \<Rightarrow> outcome" where
  "computeMultipleScatteringFromDensity cfg scatteringOrder texIndex s =
     (let s = glFramebufferTexture 0 TEX_DELTA_SCATTERING
                (glBindFramebuffer (Some FBO_MULTIPLE_SCATTERING) s)
      in andThen (compileShaderProgram cfg ''compute-multiple-scattering.frag'' True s)
           (\<lambda>s. let s = render3DTexLayers cfg s;
                     s = (if dbgSaveDeltaScattering cfg
                          then saveTexture TEX_DELTA_SCATTERING
                                 (textureOutputDir cfg @ ''/delta-scattering-order''
                                    @ to_string scatteringOrder @ wlset texIndex) s
                          else s)
                 in accumulateMultipleScattering cfg scatteringOrder texIndex
                      (glBindFramebuffer None s)))"

definition computeMultipleScattering :: "config \<Rightarrow> nat \<Rightarrow> generator \<Rightarrow> outcome" where
  "computeMultipleScattering cfg texIndex s =
     andThen (computeScatteringDensityOrder2 cfg texIndex s)
       (\<lambda>s. andThen (computeMultipleScatteringFromDensity cfg 2 texIndex s)
       (forEach [3..scatteringOrdersToCompute cfg]
          (\<lambda>scatteringOrder s.
             andThen (computeScatteringDensity cfg scatteringOrder texIndex s)
               (\<lambda>s. andThen (computeIndirectIrradiance cfg scatteringOrder texIndex s)
                        (computeMultipleScatteringFromDensity cfg scatteringOrder texIndex)))))"

text \<open>The body of the loop over the wavelength sets in \<^verbatim>\<open>main\<close>, and the loop.\<close>

definition processWavelengthSet :: "config \<Rightarrow> nat \<Rightarrow> generator \<Rightarrow> outcome" where
  "processWavelengthSet cfg texIndex s =
     (let s = clearShaders s;
          s = s\<lparr>constantsHeader := constHeaderText cfg (allWavelengths cfg ! texIndex)\<rparr>;
          s = setVirtualSourceFile (COMPUTE_TRANSMITTANCE_SHADER_FILENAME cfg)
                (makeTransmittanceComputeFunctionsSrcText cfg (allWavelengths cfg ! texIndex)) s;
          s = setVirtualSourceFile (PHASE_FUNCTIONS_SHADER_FILENAME cfg) (makePhaseFunctionsSrc cfg) s;
          s = setVirtualSourceFile (TOTAL_SCATTERING_COEFFICIENT_SHADER_FILENAME cfg)
                (makeTotalScatteringCoefSrc cfg) s
      in andThen (computeTransmittance cfg texIndex s)
           (\<lambda>s. andThen (computeDirectGroundIrradiance cfg texIndex s)
                    (computeMultipleScattering cfg texIndex)))"

definition mainLoop :: "config \<Rightarrow> generator \<Rightarrow> outcome" where
  "mainLoop cfg s = forEach [0..<length (allWavelengths cfg)] (processWavelengthSet cfg) s"


subsection \<open>Reading the events of a run\<close>

text \<open>The three kinds of event, and the events that a step from \<open>s\<close> to \<open>s'\<close> has added.\<close>

definition isShaderUsed :: "event \<Rightarrow> bool" where
  "isShaderUsed e = (case e of ShaderUsed f sh cur \<Rightarrow> True | _ \<Rightarrow> False)"

definition isDraw :: "event \<Rightarrow> bool" where
  "isDraw e = (case e of Draw targets bf \<Rightarrow> True | _ \<Rightarrow> False)"

definition isSaveTexture :: "event \<Rightarrow> bool" where
  "isSaveTexture e = (case e of SaveTexture tex path \<Rightarrow> True | _ \<Rightarrow> False)"

definition newEvents :: "generator \<Rightarrow> generator \<Rightarrow> event list" where
  "newEvents s s' = drop (length (events s)) (events s')"

text \<open>A step that changed the table of compiled shaders and added shader events only.\<close>

definition shaderOnly :: "generator \<Rightarrow> generator \<Rightarrow> bool" where
  "shaderOnly s s' \<longleftrightarrow>
     (\<exists>A us. s' = s\<lparr>allShaders := A, events := events s @ us\<rparr> \<and> list_all isShaderUsed us)"

text \<open>A function of the driver returned normally.\<close>

definition isDone :: "outcome \<Rightarrow> bool" where
  "isDone r = (case r of Done s \<Rightarrow> True | Quit e s \<Rightarrow> False)"

text \<open>
  A small run: two scatterers, two wavelength sets, two scattering orders, one layer, a
  shader directory whose sources are empty, a GPU compiler and a linker that accept
  everything; and a state in which the irradiance framebuffer has its two attachments and
  blending is additive, as the passes before the ones examined leave it.
\<close>

definition exampleDir :: "string \<rightharpoonup> string" where
  "exampleDir =
     [''copy-scattering-texture.frag'' \<mapsto> [], ''shader.vert'' \<mapsto> [], ''shader.geom'' \<mapsto> [],
      ''compute-indirect-irradiance.frag'' \<mapsto> []]"

definition exampleConfig :: "bool \<Rightarrow> config" where
  "exampleConfig radiance =
     \<lparr>scatterers = [\<lparr>name = ''rayleigh'', numberDensity = [], crossSection = (\<lambda>w. w)\<rparr>,
                    \<lparr>name = ''mie'', numberDensity = [], crossSection = (\<lambda>w. w)\<rparr>],
      absorbers = [],
      allWavelengths = [Vec4 380 400 420 440, Vec4 460 480 500 520],
      saveResultAsRadiance = radiance,
      scatteringOrdersToCompute = 2,
      textureOutputDir = ''out'',
      scatTexDepth = 1,
      dbgSaveGroundIrradiance = False,
      dbgSaveScatDensity = False,
      dbgSaveScatDensityOrder2FromGround = False,
      dbgSaveAccumScattering = False,
      dbgSaveDeltaScattering = False,
      shaderDir = exampleDir,
      internalShaders = {},
      glslCompiler = (\<lambda>type text. (True, [])),
      programLinks = (\<lambda>shaders. True),
      DENSITIES_SHADER_FILENAME = ''densities.frag'',
      PHASE_FUNCTIONS_SHADER_FILENAME = ''phase-functions.frag'',
      COMPUTE_SCATTERING_DENSITY_FILENAME = ''compute-scattering-density.frag'',
      COMPUTE_INDIRECT_IRRADIANCE_FILENAME = ''compute-indirect-irradiance.frag'',
      COMPUTE_TRANSMITTANCE_SHADER_FILENAME = ''compute-transmittance.frag'',
      TOTAL_SCATTERING_COEFFICIENT_SHADER_FILENAME = ''total-scattering-coefficient.frag'',
      makeScattererDensityFunctionsSrc = [],
      makePhaseFunctionsSrc = [],
      makeTotalScatteringCoefSrc = [],
      makeTransmittanceComputeFunctionsSrcText = (\<lambda>w. []),
      constHeaderText = (\<lambda>w. []),
      toString = (\<lambda>v. []),
      replaceToken = (\<lambda>token value text. text)\<rparr>"

definition exampleState :: generator where
  "exampleState =
     \<lparr>boundFramebuffer = None,
      colorAttachment = (\<lambda>f. [0 \<mapsto> TEX_DELTA_IRRADIANCE, 1 \<mapsto> TEX_IRRADIANCE]),
      drawBuffers = (\<lambda>f. if f = FBO_IRRADIANCE then [0, 1] else [0]),
      blendEnabled = (\<lambda>i. False),
      blendFunc = (GL_ONE, GL_ONE),
      allShaders = Map.empty,
      virtualSourceFiles = Map.empty,
      constantsHeader = [],
      densitiesHeader = [],
      events = []\<rparr>"



text \<open>
  The table of compiled shaders is fresh when every shader in it was compiled from what
  \<^verbatim>\<open>getShaderSrc\<close> gives for its name now; a shader is used fresh when that held as
  \<^verbatim>\<open>getOrCompileShader\<close> returned it.
\<close>

definition cacheFresh :: "config \<Rightarrow> generator \<Rightarrow> bool" where
  "cacheFresh cfg s \<longleftrightarrow>
     (\<forall>f sh. allShaders s f = Some sh \<longrightarrow> currentSource cfg s f = Inr (shaderInput sh))"

definition freshUse :: "event \<Rightarrow> bool" where
  "freshUse e = (case e of ShaderUsed f sh cur \<Rightarrow> cur = Inr (shaderInput sh) | _ \<Rightarrow> True)"

text \<open>
  A step of the run that only adds events and that, from a fresh table, uses shaders
  fresh and leaves the table fresh.
\<close>

definition keepsFresh :: "config \<Rightarrow> generator \<Rightarrow> generator \<Rightarrow> bool" where
  "keepsFresh cfg s s' \<longleftrightarrow>
     take (length (events s)) (events s') = events s \<and>
     (cacheFresh cfg s \<longrightarrow> cacheFresh cfg s' \<and> list_all freshUse (newEvents s s'))"

text \<open>The rules that show a function of the driver to keep the table fresh, step by step.\<close>

named_theorems kf

text \<open>A step that only adds events and uses every shader fresh.\<close>

definition usesFresh :: "generator \<Rightarrow> generator \<Rightarrow> bool" where
  "usesFresh s s' \<longleftrightarrow>
     take (length (events s)) (events s') = events s \<and> list_all freshUse (newEvents s s')"

section \<open>The radiance-to-luminance matrix\<close>






















section \<open>Generation of the transmittance source\<close>

text \<open>
  \<^verbatim>\<open>QString::replace(before, after)\<close>: the occurrences of \<open>before\<close> are found from left to
  right in the original string, the search going on behind each occurrence, and each is
  replaced.  An empty \<open>before\<close> matches before every character and at the end.
\<close>

function replaceAll :: "string \<Rightarrow> string \<Rightarrow> string \<Rightarrow> string" where
  "replaceAll before after [] = (if before = [] then after else [])"
| "replaceAll before after (c # cs) =
     (if before = [] then after @ c # replaceAll before after cs
      else if startsWith (c # cs) before
      then after @ replaceAll before after (drop (length before) (c # cs))
      else c # replaceAll before after cs)"
  by pat_completeness auto

termination
  by (relation "measure (\<lambda>(before, after, s). length s)") auto

text \<open>
  The raw string literals of \<^verbatim>\<open>makeTransmittanceComputeFunctionsSrc\<close>.  The text is a sequence
  of bytes; the comment of the template that is not ASCII is given in UTF-8.  \<open>head\<close> is
  the literal without its first character, as \<^verbatim>\<open>1+R"(...)"\<close> takes it.
\<close>

definition head :: string where
  "head =
     ''#version 330\<newline>''
     @ ''#extension GL_ARB_shading_language_420pack : require\<newline>''
     @ ''\<newline>''
     @ ''#include '' @ [CHR 0x22] @ ''const.h.glsl'' @ [CHR 0x22] @ ''\<newline>''
     @ ''#include '' @ [CHR 0x22] @ ''common-functions.h.glsl'' @ [CHR 0x22] @ ''\<newline>''"

definition opticalDepthFunctionTemplate :: string where
  "opticalDepthFunctionTemplate =
     ''\<newline>''
     @ ''vec4 opticalDepthToAtmosphereBorder_##agentSpecies(float altitude, float cosZenithAngle, vec4 crossSection)\<newline>''
     @ ''{\<newline>''
     @ ''    const float integrInterval=distanceToAtmosphereBorder(cosZenithAngle, altitude);\<newline>''
     @ ''\<newline>''
     @ ''    const float R=earthRadius;\<newline>''
     @ ''    const float r1=R+altitude;\<newline>''
     @ ''    const float l=integrInterval;\<newline>''
     @ ''    const float mu=cosZenithAngle;\<newline>''
     @ ''    /* From law of cosines: r'' @ [CHR 0xE2] @ [CHR 0x82] @ [CHR 0x82] @ [CHR 0xC2] @ [CHR 0xB2] @ ''=r'' @ [CHR 0xE2] @ [CHR 0x82] @ [CHR 0x81] @ [CHR 0xC2] @ [CHR 0xB2] @ ''+l'' @ [CHR 0xC2] @ [CHR 0xB2] @ ''+2r'' @ [CHR 0xE2] @ [CHR 0x82] @ [CHR 0x81] @ ''l'' @ [CHR 0xCE] @ [CHR 0xBC] @ '' */\<newline>''
     @ ''    const float endAltitude=-R+sqrt(sqr(r1)+sqr(l)+2*r1*l*mu);\<newline>''
     @ ''\<newline>''
     @ ''    const float dl=integrInterval/(numTransmittanceIntegrationPoints-1);\<newline>''
     @ ''\<newline>''
     @ ''    /* Using trapezoid rule on a uniform grid: f0/2+f1+f2+...+f(N-2)+f(N-1)/2. */\<newline>''
     @ ''    float sum=(agent##NumberDensity_##agentSpecies(altitude)+\<newline>''
     @ ''               agent##NumberDensity_##agentSpecies(endAltitude))/2;\<newline>''
     @ ''    for(int n=1;n<numTransmittanceIntegrationPoints-1;++n)\<newline>''
     @ ''    {\<newline>''
     @ ''        const float dist=n*dl;\<newline>''
     @ ''        const float currAlt=-R+sqrt(sqr(r1)+sqr(dist)+2*r1*dist*mu);\<newline>''
     @ ''        sum+=agent##NumberDensity_##agentSpecies(currAlt);\<newline>''
     @ ''    }\<newline>''
     @ ''    return sum*dl*crossSection;\<newline>''
     @ ''}\<newline>''"

definition computeFunctionStart :: string where
  "computeFunctionStart =
     ''\<newline>''
     @ ''// This assumes that ray doesn'' @ [CHR 0x27] @ ''t intersect Earth\<newline>''
     @ ''vec4 computeTransmittanceToAtmosphereBorder(float cosZenithAngle, float altitude)\<newline>''
     @ ''{\<newline>''
     @ ''    const vec4 depth=\<newline>''"

definition computeFunctionEnd :: string where
  "computeFunctionEnd =
     ''      ;\<newline>''
     @ ''    return exp(-depth);\<newline>''
     @ ''}\<newline>''"

text \<open>
  \<^verbatim>\<open>makeDensitiesFunctions\<close>: the two loops append to \<^verbatim>\<open>header\<close> and \<^verbatim>\<open>src\<close>; \<open>prefix\<close> is
  the text before the name of the species.  The function returns \<^verbatim>\<open>src\<close> and sets the global
  \<^verbatim>\<open>densitiesHeader\<close> when it is empty; the model returns the new value of the global too.
\<close>

fun densitiesLoop ::
  "string \<Rightarrow> ScattererDescription list \<Rightarrow> string \<times> string \<Rightarrow> string \<times> string" where
  "densitiesLoop prefix [] (header, src) = (header, src)"
| "densitiesLoop prefix (species # rest) (header, src) =
     densitiesLoop prefix rest
       (header @ prefix @ name species @ ''(float altitude);\<newline>'',
        src @ prefix @ name species @ ''(float altitude)\<newline>'' @ ''{\<newline>''
          @ numberDensity species @ ''}\<newline>'')"

definition makeDensitiesFunctions :: "config \<Rightarrow> string \<Rightarrow> string \<times> string" where
  "makeDensitiesFunctions cfg dh =
     (case densitiesLoop ''float absorberNumberDensity_'' (absorbers cfg)
             (densitiesLoop ''float scattererNumberDensity_'' (scatterers cfg) ([], [])) of
        (header, src) \<Rightarrow>
          (src,
           if dh = []
           then header @ ''vec4 scatteringCrossSection();\<newline>''
                  @ ''float scattererDensity(float altitude);\<newline>''
           else dh))"

text \<open>
  The two loops of \<^verbatim>\<open>makeTransmittanceComputeFunctionsSrc\<close> append to
  \<^verbatim>\<open>opticalDepthFunctions\<close> and \<^verbatim>\<open>computeFunction\<close>; \<open>agent\<close> is \<^verbatim>\<open>scatterer\<close> or
  \<^verbatim>\<open>absorber\<close>.
\<close>

fun transmittanceLoop ::
  "config \<Rightarrow> vec4 \<Rightarrow> string \<Rightarrow> ScattererDescription list \<Rightarrow> string \<times> string \<Rightarrow> string \<times> string" where
  "transmittanceLoop cfg wavelengths agent [] (opticalDepthFunctions, computeFunction) =
     (opticalDepthFunctions, computeFunction)"
| "transmittanceLoop cfg wavelengths agent (species # rest) (opticalDepthFunctions, computeFunction) =
     transmittanceLoop cfg wavelengths agent rest
       (opticalDepthFunctions
          @ replaceAll ''agent##'' agent
              (replaceAll ''##agentSpecies'' (name species) opticalDepthFunctionTemplate),
        computeFunction @ ''        +opticalDepthToAtmosphereBorder_'' @ name species
          @ ''(altitude,cosZenithAngle,'' @ toString cfg (crossSection species wavelengths)
          @ '')\<newline>'')"

text \<open>
  \<^verbatim>\<open>makeTransmittanceComputeFunctionsSrc\<close>.  The result is the assembled source or the
  exception of header inclusion, and the new value of \<^verbatim>\<open>densitiesHeader\<close>.
\<close>

definition transmittanceSourceBeforeInclusion :: "config \<Rightarrow> string \<Rightarrow> vec4 \<Rightarrow> string" where
  "transmittanceSourceBeforeInclusion cfg dh wavelengths =
     (case transmittanceLoop cfg wavelengths ''absorber'' (absorbers cfg)
             (transmittanceLoop cfg wavelengths ''scatterer'' (scatterers cfg)
                ([], computeFunctionStart)) of
        (opticalDepthFunctions, computeFunction) \<Rightarrow>
          head @ fst (makeDensitiesFunctions cfg dh) @ opticalDepthFunctions
            @ (computeFunction @ computeFunctionEnd))"

definition makeTransmittanceComputeFunctionsSrc ::
  "config \<Rightarrow> (string \<Rightarrow> must_quit + string) \<Rightarrow> string \<Rightarrow> string \<Rightarrow> vec4 \<Rightarrow>
   (must_quit + string) \<times> string" where
  "makeTransmittanceComputeFunctionsSrc cfg rd ch dh wavelengths =
     (withHeadersIncluded rd ch (snd (makeDensitiesFunctions cfg dh))
        (transmittanceSourceBeforeInclusion cfg dh wavelengths)
        (''(virtual)'' @ COMPUTE_TRANSMITTANCE_SHADER_FILENAME cfg),
      snd (makeDensitiesFunctions cfg dh))"

text \<open>
  The template with its tokens substituted, in the words of the specification: the lines
  of the optical-depth function of a species of the given kind.
\<close>

definition opticalDepthLines :: "string \<Rightarrow> string \<Rightarrow> string list" where
  "opticalDepthLines kind species =
     [[],
      ''vec4 opticalDepthToAtmosphereBorder_'' @ species @ ''(float altitude, float cosZenithAngle, vec4 crossSection)'',
      ''{'',
      ''    const float integrInterval=distanceToAtmosphereBorder(cosZenithAngle, altitude);'',
      [],
      ''    const float R=earthRadius;'',
      ''    const float r1=R+altitude;'',
      ''    const float l=integrInterval;'',
      ''    const float mu=cosZenithAngle;'',
      ''    /* From law of cosines: r'' @ [CHR 0xE2] @ [CHR 0x82] @ [CHR 0x82] @ [CHR 0xC2] @ [CHR 0xB2] @ ''=r'' @ [CHR 0xE2] @ [CHR 0x82] @ [CHR 0x81] @ [CHR 0xC2] @ [CHR 0xB2] @ ''+l'' @ [CHR 0xC2] @ [CHR 0xB2] @ ''+2r'' @ [CHR 0xE2] @ [CHR 0x82] @ [CHR 0x81] @ ''l'' @ [CHR 0xCE] @ [CHR 0xBC] @ '' */'',
      ''    const float endAltitude=-R+sqrt(sqr(r1)+sqr(l)+2*r1*l*mu);'',
      [],
      ''    const float dl=integrInterval/(numTransmittanceIntegrationPoints-1);'',
      [],
      ''    /* Using trapezoid rule on a uniform grid: f0/2+f1+f2+...+f(N-2)+f(N-1)/2. */'',
      ''    float sum=('' @ kind @ ''NumberDensity_'' @ species @ ''(altitude)+'',
      ''               '' @ kind @ ''NumberDensity_'' @ species @ ''(endAltitude))/2;'',
      ''    for(int n=1;n<numTransmittanceIntegrationPoints-1;++n)'',
      ''    {'',
      ''        const float dist=n*dl;'',
      ''        const float currAlt=-R+sqrt(sqr(r1)+sqr(dist)+2*r1*dist*mu);'',
      ''        sum+='' @ kind @ ''NumberDensity_'' @ species @ ''(currAlt);'',
      ''    }'',
      ''    return sum*dl*crossSection;'',
      ''}'']"

text \<open>The lines of the template, each to be followed by a line feed.\<close>

definition templateLines :: "string list" where
  "templateLines =
     [[],
      ''vec4 opticalDepthToAtmosphereBorder_##agentSpecies(float altitude, float cosZenithAngle, vec4 crossSection)'',
      ''{'',
      ''    const float integrInterval=distanceToAtmosphereBorder(cosZenithAngle, altitude);'',
      [],
      ''    const float R=earthRadius;'',
      ''    const float r1=R+altitude;'',
      ''    const float l=integrInterval;'',
      ''    const float mu=cosZenithAngle;'',
      ''    /* From law of cosines: r'' @ [CHR 0xE2] @ [CHR 0x82] @ [CHR 0x82] @ [CHR 0xC2] @ [CHR 0xB2] @ ''=r'' @ [CHR 0xE2] @ [CHR 0x82] @ [CHR 0x81] @ [CHR 0xC2] @ [CHR 0xB2] @ ''+l'' @ [CHR 0xC2] @ [CHR 0xB2] @ ''+2r'' @ [CHR 0xE2] @ [CHR 0x82] @ [CHR 0x81] @ ''l'' @ [CHR 0xCE] @ [CHR 0xBC] @ '' */'',
      ''    const float endAltitude=-R+sqrt(sqr(r1)+sqr(l)+2*r1*l*mu);'',
      [],
      ''    const float dl=integrInterval/(numTransmittanceIntegrationPoints-1);'',
      [],
      ''    /* Using trapezoid rule on a uniform grid: f0/2+f1+f2+...+f(N-2)+f(N-1)/2. */'',
      ''    float sum=(agent##NumberDensity_##agentSpecies(altitude)+'',
      ''               agent##NumberDensity_##agentSpecies(endAltitude))/2;'',
      ''    for(int n=1;n<numTransmittanceIntegrationPoints-1;++n)'',
      ''    {'',
      ''        const float dist=n*dl;'',
      ''        const float currAlt=-R+sqrt(sqr(r1)+sqr(dist)+2*r1*dist*mu);'',
      ''        sum+=agent##NumberDensity_##agentSpecies(currAlt);'',
      ''    }'',
      ''    return sum*dl*crossSection;'',
      ''}'']"

definition unlinesNL :: "string list \<Rightarrow> string" where
  "unlinesNL ls = concat (map (\<lambda>l. l @ ''\<newline>'') ls)"

text \<open>
  The optical-depth function of a species and its term in the sum of the main function, in
  the words of the specification.
\<close>

definition opticalDepthFunction :: "string \<Rightarrow> ScattererDescription \<Rightarrow> string" where
  "opticalDepthFunction kind species = unlinesNL (opticalDepthLines kind (name species))"

definition depthTerm :: "config \<Rightarrow> vec4 \<Rightarrow> ScattererDescription \<Rightarrow> string" where
  "depthTerm cfg wavelengths species =
     ''        +opticalDepthToAtmosphereBorder_'' @ name species @ ''(altitude,cosZenithAngle,''
       @ toString cfg (crossSection species wavelengths) @ '')\<newline>''"

text \<open>Text with neither a number sign nor a line break.\<close>

definition plainText :: "string \<Rightarrow> bool" where
  "plainText t \<longleftrightarrow> CHR ''#'' \<notin> set t \<and> CHR 0x0A \<notin> set t \<and> CHR 0x0D \<notin> set t"

text \<open>
  An atmosphere of one scatterer and one absorber, the directory with the header of the
  common functions, and the declarations that come out of header inclusion for it.
\<close>

definition transmittanceExample :: config where
  "transmittanceExample =
     (exampleConfig False)
       \<lparr>scatterers := [\<lparr>name = ''air'', numberDensity = ''    return 1;\<newline>'', crossSection = (\<lambda>w. w)\<rparr>],
        absorbers := [\<lparr>name = ''ozone'', numberDensity = ''    return 2;\<newline>'', crossSection = (\<lambda>w. w)\<rparr>],
        toString := (\<lambda>v. ''vec4(1,2,3,4)'')\<rparr>"

definition transmittanceDir :: "string \<rightharpoonup> string" where
  "transmittanceDir = [''common-functions.h.glsl'' \<mapsto> ''float sqr(float x);\<newline>'']"

definition transmittanceDeclarations :: string where
  "transmittanceDeclarations =
     ''#version 330\<newline>''
     @ ''#extension GL_ARB_shading_language_420pack : require\<newline>''
     @ ''\<newline>''
     @ ''#line 1 1 // const.h.glsl\<newline>''
     @ ''const float earthRadius=1;\<newline>''
     @ ''#line 5 0 // (virtual)compute-transmittance.frag\<newline>''
     @ ''#line 1 2 // common-functions.h.glsl\<newline>''
     @ ''float sqr(float x);\<newline>''
     @ ''#line 6 0 // (virtual)compute-transmittance.frag\<newline>''
     @ ''float scattererNumberDensity_air(float altitude)\<newline>''
     @ ''{\<newline>''
     @ ''    return 1;\<newline>''
     @ ''}\<newline>''
     @ ''float absorberNumberDensity_ozone(float altitude)\<newline>''
     @ ''{\<newline>''
     @ ''    return 2;\<newline>''
     @ ''}\<newline>''"

section \<open>Properties of header inclusion\<close>















section \<open>Properties of the discovery of fragment sources\<close>













section \<open>Properties of the compilation of one shader\<close>



section \<open>Properties of the scheduler\<close>

lemma shaderOnly_refl: "shaderOnly s s"
  unfolding shaderOnly_def by (rule exI [of _ "allShaders s"], rule exI [of _ "[]"]) simp

lemma shaderOnly_trans: "shaderOnly s s' \<Longrightarrow> shaderOnly s' s'' \<Longrightarrow> shaderOnly s s''"
  unfolding shaderOnly_def
proof -
  assume "\<exists>A us. s' = s\<lparr>allShaders := A, events := events s @ us\<rparr> \<and> list_all isShaderUsed us"
    and "\<exists>A us. s'' = s'\<lparr>allShaders := A, events := events s' @ us\<rparr> \<and> list_all isShaderUsed us"
  then obtain A us A' us' where
    1: "s' = s\<lparr>allShaders := A, events := events s @ us\<rparr>" "list_all isShaderUsed us" and
    2: "s'' = s'\<lparr>allShaders := A', events := events s' @ us'\<rparr>" "list_all isShaderUsed us'"
    by blast
  from 1 2 have "s'' = s\<lparr>allShaders := A', events := events s @ (us @ us')\<rparr>" by simp
  moreover from 1 2 have "list_all isShaderUsed (us @ us')" by simp
  ultimately show "\<exists>A us. s'' = s\<lparr>allShaders := A, events := events s @ us\<rparr> \<and> list_all isShaderUsed us"
    by blast
qed

lemma shaderOnly_getOrCompileShader:
  "shaderOnly s (stateOf (getOrCompileShader cfg type filename s))"
proof (cases "allShaders s filename")
  case None
  show ?thesis
  proof (cases "snd (compileShaderFile (glslCompiler cfg) (currentSource cfg s)
                       (constantsHeader s) (densitiesHeader s) type filename)")
    case (Inl e)
    with None show ?thesis by (simp add: getOrCompileShader_def shaderOnly_refl)
  next
    case (Inr sh)
    with None show ?thesis
      unfolding shaderOnly_def getOrCompileShader_def
      by (auto intro!: exI [of _ "(allShaders s)(filename \<mapsto> sh)"]
                       exI [of _ "[ShaderUsed filename sh (currentSource cfg s filename)]"]
               simp: isShaderUsed_def)
  qed
next
  case (Some sh)
  then show ?thesis
    unfolding shaderOnly_def getOrCompileShader_def
    by (auto intro!: exI [of _ "allShaders s"]
                     exI [of _ "[ShaderUsed filename sh (currentSource cfg s filename)]"]
             simp: isShaderUsed_def)
qed

lemma shaderOnly_andThen:
  "shaderOnly s (stateOf r) \<Longrightarrow> (\<And>s1. shaderOnly s s1 \<Longrightarrow> shaderOnly s (stateOf (f s1))) \<Longrightarrow>
     shaderOnly s (stateOf (andThen r f))"
  by (cases r) simp_all

lemma shaderOnly_forEach:
  "(\<And>x s1. shaderOnly s1 (stateOf (body x s1))) \<Longrightarrow> shaderOnly s (stateOf (forEach xs body s))"
proof (induction xs arbitrary: s)
  case Nil
  then show ?case by (simp add: shaderOnly_refl)
next
  case (Cons x xs)
  show ?case
  proof (cases "body x s")
    case (Done s1)
    from Cons.prems [of s x] Done have "shaderOnly s s1" by simp
    moreover have "shaderOnly s1 (stateOf (forEach xs body s1))"
      by (rule Cons.IH) (rule Cons.prems)
    ultimately show ?thesis using Done by (simp add: shaderOnly_trans)
  next
    case (Quit e s1)
    from Cons.prems [of s x] Quit show ?thesis by simp
  qed
qed

lemma shaderOnly_compileShaderProgram:
  "shaderOnly s (stateOf (compileShaderProgram cfg mainSrcFileName useGeomShader s))"
proof (cases "getShaderFileNamesToLinkWith (currentSource cfg s) (internalShaders cfg) mainSrcFileName 0")
  case (Inl e)
  then show ?thesis by (simp add: compileShaderProgram_def shaderOnly_refl)
next
  case (Inr names)
  have step: "\<And>ty f s0 s1. shaderOnly s0 s1 \<Longrightarrow> shaderOnly s0 (stateOf (getOrCompileShader cfg ty f s1))"
    using shaderOnly_getOrCompileShader shaderOnly_trans by blast
  show ?thesis
    unfolding compileShaderProgram_def Inr sum.case
    apply (rule shaderOnly_andThen)
     apply (rule shaderOnly_forEach)
     apply (rule shaderOnly_getOrCompileShader)
    apply (rule shaderOnly_andThen)
     apply (erule step)
    apply (rule shaderOnly_andThen)
     apply (simp add: step)
    apply simp
    done
qed

lemma renderTargets_events [simp]:
  "renderTargets (s\<lparr>events := E\<rparr>) = renderTargets s"
  by (simp add: renderTargets_def cong: option.case_cong)

lemma renderTargets_allShaders [simp]:
  "renderTargets (s\<lparr>allShaders := A\<rparr>) = renderTargets s"
  by (simp add: renderTargets_def cong: option.case_cong)

lemma render3DTexLayers_eq:
  "render3DTexLayers cfg s =
     s\<lparr>events := events s @ replicate (scatTexDepth cfg) (Draw (renderTargets s) (blendFunc s))\<rparr>"
proof -
  have "fold (\<lambda>layer. renderQuad) [0..<n] s =
          s\<lparr>events := events s @ replicate n (Draw (renderTargets s) (blendFunc s))\<rparr>" for n
  proof (induction n)
    case 0
    show ?case by simp
  next
    case (Suc n)
    have "fold (\<lambda>layer. renderQuad) [0..<Suc n] s = renderQuad (fold (\<lambda>layer. renderQuad) [0..<n] s)"
      by simp
    also have "\<dots> = renderQuad (s\<lparr>events := events s @ replicate n (Draw (renderTargets s) (blendFunc s))\<rparr>)"
      by (simp only: Suc.IH)
    also have "\<dots> = s\<lparr>events := events s @ replicate (Suc n) (Draw (renderTargets s) (blendFunc s))\<rparr>"
      by (simp add: renderQuad_def replicate_append_same)
    finally show ?case .
  qed
  then show ?thesis by (simp add: render3DTexLayers_def)
qed

lemma compileShaderProgram_Done:
  assumes "compileShaderProgram cfg m g s = Done s'"
  obtains A us where "s' = s\<lparr>allShaders := A, events := events s @ us\<rparr>" "list_all isShaderUsed us"
  using shaderOnly_compileShaderProgram [of s cfg m g] assms
  by (auto simp: shaderOnly_def)

lemma andThen_Done:
  "andThen r f = Done s' \<longleftrightarrow> (\<exists>s1. r = Done s1 \<and> f s1 = Done s')"
  by (cases r) simp_all

lemma filter_shaderUsed [simp]:
  "list_all isShaderUsed us \<Longrightarrow> filter isDraw us = []"
  "list_all isShaderUsed us \<Longrightarrow> filter isSaveTexture us = []"
  by (induction us) (auto simp: isShaderUsed_def isDraw_def isSaveTexture_def split: event.splits)


lemmas example_eval =
  isDone_def accumulateMultipleScattering_def compileShaderProgram_def
  computeIndirectIrradianceOrder1_def rewriteAndCompile_def indirectIrradianceSrc_def
  setVirtualSourceFile_def eraseShader_def saveIrradiance_def isSaveTexture_def
  getShaderFileNamesToLinkWith.simps maxRecursionDepth_def currentSource_def
  exampleState_def exampleConfig_def getShaderSrc_def exampleDir_def readLines_def
  getOrCompileShader_def compileShaderFile_def compileShader_def withHeadersIncluded_def
  glFramebufferTexture_def glBindFramebuffer_def glEnable_BLEND_def glDisable_BLEND_def
  glEnablei_BLEND_def glDisablei_BLEND_def setDrawBuffers_def
  render3DTexLayers_def renderQuad_def renderTargets_def saveTexture_def addedShaders_def
  newEvents_def isDraw_def isLastWavelengthSet_def Let_def





text \<open>
  Claim C7.  An accumulate pass that completes saves, after the optional debug dump, the
  final accumulator file exactly when the order is \<^verbatim>\<open>scatteringOrdersToCompute\<close> and either
  the mode is radiance, under the name \<^verbatim>\<open>multiple-scattering-wlset<k>.f32\<close> of its set, or
  the set is the last one, under the name \<^verbatim>\<open>multiple-scattering-xyzw.f32\<close>; it saves nothing
  else.  The set index is a C++ \<^verbatim>\<open>int\<close>.
\<close>

theorem accumulateMultipleScattering_final_file:
  assumes "accumulateMultipleScattering cfg scatteringOrder texIndex s = Done s'"
      and "texIndex < 2 ^ 31"
  shows "filter isSaveTexture (newEvents s s') =
           (if dbgSaveAccumScattering cfg
            then [SaveTexture TEX_MULTIPLE_SCATTERING
                    (textureOutputDir cfg @ ''/multiple-scattering-to-order''
                       @ to_string scatteringOrder @ ''-wlset'' @ to_string (int texIndex) @ ''.f32'')]
            else [])
           @ (if scatteringOrder = scatteringOrdersToCompute cfg
                 \<and> (saveResultAsRadiance cfg \<or> texIndex + 1 = length (allWavelengths cfg))
              then [SaveTexture TEX_MULTIPLE_SCATTERING
                      (if saveResultAsRadiance cfg
                       then textureOutputDir cfg @ ''/multiple-scattering-wlset''
                              @ to_string (int texIndex) @ ''.f32''
                       else textureOutputDir cfg @ ''/multiple-scattering-xyzw.f32'')]
              else [])"
proof -
  let ?s0 = "glFramebufferTexture 0 TEX_MULTIPLE_SCATTERING
               (glBindFramebuffer (Some FBO_MULTIPLE_SCATTERING)
                 (if scatteringOrder > 2 \<or> (texIndex > 0 \<and> \<not> saveResultAsRadiance cfg)
                  then glEnable_BLEND s else glDisable_BLEND s))"
  from assms(1) obtain s1 where c: "compileShaderProgram cfg ''copy-scattering-texture.frag'' True ?s0 = Done s1"
    by (auto simp: accumulateMultipleScattering_def Let_def andThen_Done)
  then obtain A us where s1: "s1 = ?s0\<lparr>allShaders := A, events := events ?s0 @ us\<rparr>"
    and us: "list_all isShaderUsed us"
    by (rule compileShaderProgram_Done)
  from assms(1) c have s': "events s' = events (render3DTexLayers cfg s1)
      @ (if dbgSaveAccumScattering cfg
         then [SaveTexture TEX_MULTIPLE_SCATTERING
                 (textureOutputDir cfg @ ''/multiple-scattering-to-order''
                    @ to_string scatteringOrder @ wlset texIndex)] else [])
      @ (if scatteringOrder = scatteringOrdersToCompute cfg
            \<and> (isLastWavelengthSet cfg texIndex \<or> saveResultAsRadiance cfg)
         then [SaveTexture TEX_MULTIPLE_SCATTERING
                 (if saveResultAsRadiance cfg
                  then textureOutputDir cfg @ ''/multiple-scattering'' @ wlset texIndex
                  else textureOutputDir cfg @ ''/multiple-scattering-xyzw.f32'')] else [])"
    by (auto simp add: accumulateMultipleScattering_def Let_def saveTexture_def glBindFramebuffer_def
        glDisable_BLEND_def)
  have ev0: "events ?s0 = events s"
    by (simp add: glFramebufferTexture_def glBindFramebuffer_def glEnable_BLEND_def glDisable_BLEND_def)
  have last: "isLastWavelengthSet cfg texIndex \<longleftrightarrow> texIndex + 1 = length (allWavelengths cfg)"
  proof -
    from assms(2) have "texIndex + 1 < 2 ^ 32" by simp
    then show ?thesis by (simp add: isLastWavelengthSet_def)
  qed
  have "events s1 = events s @ us" by (simp add: s1 ev0)
  with s' us last show ?thesis
    by (auto simp add: newEvents_def render3DTexLayers_eq isSaveTexture_def wlset_def)
qed


lemma example_final_done:
  "isDone (accumulateMultipleScattering (exampleConfig True) 2 1 exampleState)"
  by (simp add: example_eval)

theorem accumulateMultipleScattering_final_file_witness:
  "isDone (accumulateMultipleScattering (exampleConfig True) 2 1 exampleState)
   \<and> (1::nat) < 2 ^ 31
   \<and> filter isSaveTexture (newEvents exampleState
        (stateOf (accumulateMultipleScattering (exampleConfig True) 2 1 exampleState)))
      = [SaveTexture TEX_MULTIPLE_SCATTERING ''out/multiple-scattering-wlset1.f32'']"
proof -
  from example_final_done obtain s' where
    d: "accumulateMultipleScattering (exampleConfig True) 2 1 exampleState = Done s'"
    by (auto simp: isDone_def split: outcome.splits)
  have k: "(1::nat) < 2 ^ 31" by simp
  from accumulateMultipleScattering_final_file [OF d k] d example_final_done
  show ?thesis
    by (simp add: exampleConfig_def to_string_def toDecimal.simps digit_def)
qed







section \<open>The table of compiled shaders stays fresh\<close>

lemma keepsFreshI:
  "events s' = events s @ es \<Longrightarrow> (cacheFresh cfg s \<Longrightarrow> cacheFresh cfg s' \<and> list_all freshUse es) \<Longrightarrow>
     keepsFresh cfg s s'"
  by (simp add: keepsFresh_def newEvents_def)

lemma keepsFreshE:
  assumes "keepsFresh cfg s s'"
  obtains es where "events s' = events s @ es"
    "cacheFresh cfg s \<longrightarrow> cacheFresh cfg s' \<and> list_all freshUse es"
proof -
  from assms have t: "take (length (events s)) (events s') = events s"
    by (simp add: keepsFresh_def)
  have "events s' = take (length (events s)) (events s') @ drop (length (events s)) (events s')"
    by simp
  with t have e: "events s' = events s @ drop (length (events s)) (events s')" by simp
  from assms have "cacheFresh cfg s \<longrightarrow>
      cacheFresh cfg s' \<and> list_all freshUse (drop (length (events s)) (events s'))"
    by (simp add: keepsFresh_def newEvents_def)
  with e that show ?thesis by blast
qed

lemma keepsFresh_refl: "keepsFresh cfg s s"
  by (rule keepsFreshI [where es = "[]"]) simp_all

lemma keepsFresh_trans:
  assumes "keepsFresh cfg s s'" and "keepsFresh cfg s' s''"
  shows "keepsFresh cfg s s''"
proof -
  from assms(1) obtain a where a: "events s' = events s @ a"
    "cacheFresh cfg s \<longrightarrow> cacheFresh cfg s' \<and> list_all freshUse a"
    by (rule keepsFreshE)
  from assms(2) obtain b where b: "events s'' = events s' @ b"
    "cacheFresh cfg s' \<longrightarrow> cacheFresh cfg s'' \<and> list_all freshUse b"
    by (rule keepsFreshE)
  show ?thesis
    by (rule keepsFreshI [where es = "a @ b"]) (use a b in auto)
qed

text \<open>A step that leaves both shader tables alone and adds no shader event.\<close>

lemma keepsFresh_gl:
  assumes "allShaders s' = allShaders s" and "virtualSourceFiles s' = virtualSourceFiles s"
      and "events s' = events s @ es" and "list_all (\<lambda>e. \<not> isShaderUsed e) es"
  shows "keepsFresh cfg s s'"
proof (rule keepsFreshI [OF assms(3)])
  assume "cacheFresh cfg s"
  with assms(1,2) have "cacheFresh cfg s'"
    by (simp add: cacheFresh_def currentSource_def)
  moreover from assms(4) have "list_all freshUse es"
    by (induction es) (auto simp: freshUse_def isShaderUsed_def split: event.splits)
  ultimately show "cacheFresh cfg s' \<and> list_all freshUse es" ..
qed

lemma keepsFresh_rewrite:
  "keepsFresh cfg s (setVirtualSourceFile f newSrc (eraseShader f s))"
proof (rule keepsFreshI [where es = "[]"])
  show "events (setVirtualSourceFile f newSrc (eraseShader f s)) = events s @ []"
    by (simp add: setVirtualSourceFile_def eraseShader_def)
next
  assume "cacheFresh cfg s"
  then have "cacheFresh cfg (setVirtualSourceFile f newSrc (eraseShader f s))"
    by (auto simp: cacheFresh_def currentSource_def setVirtualSourceFile_def eraseShader_def)
  then show "cacheFresh cfg (setVirtualSourceFile f newSrc (eraseShader f s)) \<and> list_all freshUse []"
    by simp
qed

lemma keepsFresh_erase: "keepsFresh cfg s (eraseShader f s)"
proof (rule keepsFreshI [where es = "[]"])
  show "events (eraseShader f s) = events s @ []"
    by (simp add: eraseShader_def)
next
  assume "cacheFresh cfg s"
  then have "cacheFresh cfg (eraseShader f s)"
    by (auto simp: cacheFresh_def currentSource_def eraseShader_def)
  then show "cacheFresh cfg (eraseShader f s) \<and> list_all freshUse []" by simp
qed

lemma keepsFresh_getOrCompileShader:
  "keepsFresh cfg s (stateOf (getOrCompileShader cfg type filename s))"
proof (cases "allShaders s filename")
  case (Some sh)
  show ?thesis
  proof (rule keepsFreshI [where es = "[ShaderUsed filename sh (currentSource cfg s filename)]"])
    show "events (stateOf (getOrCompileShader cfg type filename s))
            = events s @ [ShaderUsed filename sh (currentSource cfg s filename)]"
      using Some by (simp add: getOrCompileShader_def)
  next
    assume "cacheFresh cfg s"
    with Some show "cacheFresh cfg (stateOf (getOrCompileShader cfg type filename s))
        \<and> list_all freshUse [ShaderUsed filename sh (currentSource cfg s filename)]"
      by (simp add: getOrCompileShader_def cacheFresh_def currentSource_def freshUse_def)
  qed
next
  case None
  show ?thesis
  proof (cases "snd (compileShaderFile (glslCompiler cfg) (currentSource cfg s)
                       (constantsHeader s) (densitiesHeader s) type filename)")
    case (Inl e)
    with None show ?thesis by (simp add: getOrCompileShader_def keepsFresh_refl)
  next
    case (Inr sh)
    then have input: "currentSource cfg s filename = Inr (shaderInput sh)"
      by (auto simp: compileShaderFile_def compileShader_def split: sum.splits if_splits)
    show ?thesis
    proof (rule keepsFreshI [where es = "[ShaderUsed filename sh (currentSource cfg s filename)]"])
      show "events (stateOf (getOrCompileShader cfg type filename s))
              = events s @ [ShaderUsed filename sh (currentSource cfg s filename)]"
        using None Inr by (simp add: getOrCompileShader_def)
    next
      assume "cacheFresh cfg s"
      with None Inr input
      show "cacheFresh cfg (stateOf (getOrCompileShader cfg type filename s))
          \<and> list_all freshUse [ShaderUsed filename sh (currentSource cfg s filename)]"
        by (simp add: getOrCompileShader_def cacheFresh_def currentSource_def freshUse_def)
    qed
  qed
qed

lemma keepsFresh_andThen:
  assumes "keepsFresh cfg s (stateOf r)"
      and "\<And>s1. r = Done s1 \<Longrightarrow> keepsFresh cfg s1 (stateOf (f s1))"
  shows "keepsFresh cfg s (stateOf (andThen r f))"
proof (cases r)
  case (Done s1)
  with assms(1) have "keepsFresh cfg s s1" by simp
  moreover from assms(2) Done have "keepsFresh cfg s1 (stateOf (f s1))" by simp
  ultimately show ?thesis using Done by (simp add: keepsFresh_trans)
next
  case (Quit e s1)
  with assms(1) show ?thesis by simp
qed

lemma keepsFresh_forEach:
  assumes "\<And>x s1. keepsFresh cfg s1 (stateOf (body x s1))"
  shows "keepsFresh cfg s (stateOf (forEach xs body s))"
proof (induction xs arbitrary: s)
  case Nil
  show ?case by (simp add: keepsFresh_refl)
next
  case (Cons x xs)
  show ?case
    unfolding forEach.simps
    by (rule keepsFresh_andThen) (rule assms, rule Cons.IH)
qed

lemma keepsFresh_Done:
  "keepsFresh cfg s s' \<Longrightarrow> keepsFresh cfg s (stateOf (Done s'))"
  by simp

lemma keepsFresh_compileShaderProgram:
  "keepsFresh cfg s (stateOf (compileShaderProgram cfg mainSrcFileName useGeomShader s))"
proof (cases "getShaderFileNamesToLinkWith (currentSource cfg s) (internalShaders cfg) mainSrcFileName 0")
  case (Inl e)
  then show ?thesis by (simp add: compileShaderProgram_def keepsFresh_refl)
next
  case (Inr names)
  show ?thesis
    unfolding compileShaderProgram_def Inr sum.case
    apply (rule keepsFresh_andThen)
     apply (rule keepsFresh_forEach)
     apply (rule keepsFresh_getOrCompileShader)
    apply (rule keepsFresh_andThen)
     apply (rule keepsFresh_getOrCompileShader)
    apply (rule keepsFresh_andThen)
     apply (simp add: keepsFresh_getOrCompileShader keepsFresh_refl)
    apply (simp add: keepsFresh_refl)
    done
qed

lemma keepsFresh_rewriteAndCompile:
  "keepsFresh cfg s (stateOf (rewriteAndCompile cfg f newText g s))"
proof (cases newText)
  case (Inl e)
  then show ?thesis by (simp add: rewriteAndCompile_def keepsFresh_erase)
next
  case (Inr newSrc)
  have "keepsFresh cfg (setVirtualSourceFile f newSrc (eraseShader f s))
          (stateOf (compileShaderProgram cfg f g (setVirtualSourceFile f newSrc (eraseShader f s))))"
    by (rule keepsFresh_compileShaderProgram)
  with keepsFresh_rewrite [of cfg s f newSrc] Inr show ?thesis
    by (simp add: rewriteAndCompile_def keepsFresh_trans)
qed

lemma kf_refl [kf]: "keepsFresh cfg s s"
  by (rule keepsFresh_refl)

lemma kf_if [kf]:
  "keepsFresh cfg s a \<Longrightarrow> keepsFresh cfg s b \<Longrightarrow> keepsFresh cfg s (if c then a else b)"
  by simp

lemma kf_if_outcome [kf]:
  "keepsFresh cfg s (stateOf a) \<Longrightarrow> keepsFresh cfg s (stateOf b) \<Longrightarrow>
     keepsFresh cfg s (stateOf (if c then a else b))"
  by simp

lemma kf_Done [kf]: "keepsFresh cfg s x \<Longrightarrow> keepsFresh cfg s (stateOf (Done x))"
  by simp

lemma kf_Quit [kf]: "keepsFresh cfg s x \<Longrightarrow> keepsFresh cfg s (stateOf (Quit e x))"
  by simp

lemma kf_andThen [kf]:
  "keepsFresh cfg s (stateOf r) \<Longrightarrow> (\<And>s1. keepsFresh cfg s1 (stateOf (f s1))) \<Longrightarrow>
     keepsFresh cfg s (stateOf (andThen r f))"
  by (rule keepsFresh_andThen)

lemma kf_forEach [kf]:
  "(\<And>x s1. keepsFresh cfg s1 (stateOf (body x s1))) \<Longrightarrow> keepsFresh cfg s x \<Longrightarrow>
     keepsFresh cfg s (stateOf (forEach xs body x))"
  using keepsFresh_forEach keepsFresh_trans by blast

lemma kf_gl:
  assumes "keepsFresh cfg s x"
      and "allShaders (p x) = allShaders x" and "virtualSourceFiles (p x) = virtualSourceFiles x"
      and "events (p x) = events x @ es" and "list_all (\<lambda>e. \<not> isShaderUsed e) es"
  shows "keepsFresh cfg s (p x)"
  using assms(1) keepsFresh_gl [OF assms(2,3,4,5)] by (rule keepsFresh_trans)

lemma kf_glBindFramebuffer [kf]:
  "keepsFresh cfg s x \<Longrightarrow> keepsFresh cfg s (glBindFramebuffer f x)"
  by (rule kf_gl [where es = "[]"]) (simp_all add: glBindFramebuffer_def)

lemma kf_glFramebufferTexture [kf]:
  "keepsFresh cfg s x \<Longrightarrow> keepsFresh cfg s (glFramebufferTexture a t x)"
  by (rule kf_gl [where es = "[]"]) (simp_all add: glFramebufferTexture_def split: option.splits)

lemma kf_setDrawBuffers [kf]:
  "keepsFresh cfg s x \<Longrightarrow> keepsFresh cfg s (setDrawBuffers b x)"
  by (rule kf_gl [where es = "[]"]) (simp_all add: setDrawBuffers_def split: option.splits)

lemma kf_glEnable_BLEND [kf]:
  "keepsFresh cfg s x \<Longrightarrow> keepsFresh cfg s (glEnable_BLEND x)"
  by (rule kf_gl [where es = "[]"]) (simp_all add: glEnable_BLEND_def)

lemma kf_glDisable_BLEND [kf]:
  "keepsFresh cfg s x \<Longrightarrow> keepsFresh cfg s (glDisable_BLEND x)"
  by (rule kf_gl [where es = "[]"]) (simp_all add: glDisable_BLEND_def)

lemma kf_glEnablei_BLEND [kf]:
  "keepsFresh cfg s x \<Longrightarrow> keepsFresh cfg s (glEnablei_BLEND i x)"
  by (rule kf_gl [where es = "[]"]) (simp_all add: glEnablei_BLEND_def)

lemma kf_glDisablei_BLEND [kf]:
  "keepsFresh cfg s x \<Longrightarrow> keepsFresh cfg s (glDisablei_BLEND i x)"
  by (rule kf_gl [where es = "[]"]) (simp_all add: glDisablei_BLEND_def)

lemma kf_glBlendFunc [kf]:
  "keepsFresh cfg s x \<Longrightarrow> keepsFresh cfg s (glBlendFunc a b x)"
  by (rule kf_gl [where es = "[]"]) (simp_all add: glBlendFunc_def)

lemma kf_renderQuad [kf]:
  "keepsFresh cfg s x \<Longrightarrow> keepsFresh cfg s (renderQuad x)"
  by (rule kf_gl [where es = "[Draw (renderTargets x) (blendFunc x)]"])
     (simp_all add: renderQuad_def isShaderUsed_def)

lemma kf_render3DTexLayers [kf]:
  "keepsFresh cfg s x \<Longrightarrow> keepsFresh cfg s (render3DTexLayers cfg' x)"
  by (rule kf_gl [where es = "replicate (scatTexDepth cfg') (Draw (renderTargets x) (blendFunc x))"])
     (simp_all add: render3DTexLayers_eq isShaderUsed_def list_all_iff)

lemma kf_saveTexture [kf]:
  "keepsFresh cfg s x \<Longrightarrow> keepsFresh cfg s (saveTexture t p x)"
  by (rule kf_gl [where es = "[SaveTexture t p]"]) (simp_all add: saveTexture_def isShaderUsed_def)

lemma kf_saveIrradiance [kf]:
  "keepsFresh cfg s x \<Longrightarrow> keepsFresh cfg s (saveIrradiance cfg' order k x)"
  unfolding saveIrradiance_def by (intro kf)

lemma kf_saveScatteringDensity [kf]:
  "keepsFresh cfg s x \<Longrightarrow> keepsFresh cfg s (saveScatteringDensity cfg' order k x)"
  unfolding saveScatteringDensity_def by (intro kf)

lemma kf_rewrite [kf]:
  "keepsFresh cfg s x \<Longrightarrow> keepsFresh cfg s (setVirtualSourceFile f newSrc (eraseShader f x))"
  using keepsFresh_rewrite keepsFresh_trans by blast

lemma kf_compileShaderProgram [kf]:
  "keepsFresh cfg s x \<Longrightarrow> keepsFresh cfg s (stateOf (compileShaderProgram cfg m g x))"
  using keepsFresh_compileShaderProgram keepsFresh_trans by blast

lemma kf_rewriteAndCompile [kf]:
  "keepsFresh cfg s x \<Longrightarrow> keepsFresh cfg s (stateOf (rewriteAndCompile cfg f newText g x))"
  using keepsFresh_rewriteAndCompile keepsFresh_trans by blast

lemma kf_computeTransmittance [kf]:
  "keepsFresh cfg s x \<Longrightarrow> keepsFresh cfg s (stateOf (computeTransmittance cfg k x))"
  unfolding computeTransmittance_def by (intro kf)

lemma kf_computeDirectGroundIrradiance [kf]:
  "keepsFresh cfg s x \<Longrightarrow> keepsFresh cfg s (stateOf (computeDirectGroundIrradiance cfg k x))"
  unfolding computeDirectGroundIrradiance_def by (intro kf)

lemma kf_computeSingleScattering [kf]:
  "keepsFresh cfg s x \<Longrightarrow> keepsFresh cfg s (stateOf (computeSingleScattering cfg k sc x))"
  unfolding computeSingleScattering_def Let_def by (intro kf)

lemma kf_computeIndirectIrradianceOrder1 [kf]:
  "keepsFresh cfg s x \<Longrightarrow> keepsFresh cfg s (stateOf (computeIndirectIrradianceOrder1 cfg k i x))"
  unfolding computeIndirectIrradianceOrder1_def Let_def by (intro kf)

lemma kf_order2Scatterer [kf]:
  "keepsFresh cfg s x \<Longrightarrow> keepsFresh cfg s (stateOf (order2Scatterer cfg k i x))"
  unfolding order2Scatterer_def Let_def by (intro kf)

lemma kf_computeScatteringDensityOrder2 [kf]:
  "keepsFresh cfg s x \<Longrightarrow> keepsFresh cfg s (stateOf (computeScatteringDensityOrder2 cfg k x))"
  unfolding computeScatteringDensityOrder2_def Let_def by (intro kf)

lemma kf_computeScatteringDensity [kf]:
  "keepsFresh cfg s x \<Longrightarrow> keepsFresh cfg s (stateOf (computeScatteringDensity cfg order k x))"
  unfolding computeScatteringDensity_def Let_def by (intro kf)

lemma kf_computeIndirectIrradiance [kf]:
  "keepsFresh cfg s x \<Longrightarrow> keepsFresh cfg s (stateOf (computeIndirectIrradiance cfg order k x))"
  unfolding computeIndirectIrradiance_def Let_def by (intro kf)

lemma kf_accumulateMultipleScattering [kf]:
  "keepsFresh cfg s x \<Longrightarrow> keepsFresh cfg s (stateOf (accumulateMultipleScattering cfg order k x))"
  unfolding accumulateMultipleScattering_def Let_def by (intro kf)

lemma kf_computeMultipleScatteringFromDensity [kf]:
  "keepsFresh cfg s x \<Longrightarrow> keepsFresh cfg s (stateOf (computeMultipleScatteringFromDensity cfg order k x))"
  unfolding computeMultipleScatteringFromDensity_def Let_def by (intro kf)

lemma kf_computeMultipleScattering [kf]:
  "keepsFresh cfg s x \<Longrightarrow> keepsFresh cfg s (stateOf (computeMultipleScattering cfg k x))"
  unfolding computeMultipleScattering_def Let_def by (intro kf)

lemma usesFresh_refl: "usesFresh s s"
  by (simp add: usesFresh_def newEvents_def)

lemma usesFresh_events:
  assumes "usesFresh s s'"
  shows "events s' = events s @ newEvents s s'"
proof -
  from assms have "take (length (events s)) (events s') = events s"
    by (simp add: usesFresh_def)
  then have "events s @ drop (length (events s)) (events s') = events s'"
    by (metis append_take_drop_id)
  then show ?thesis by (simp add: newEvents_def)
qed

lemma usesFresh_trans:
  assumes "usesFresh s s'" and "usesFresh s' s''"
  shows "usesFresh s s''"
proof -
  from assms(1) have a: "events s' = events s @ newEvents s s'" by (rule usesFresh_events)
  from assms(2) have b: "events s'' = events s' @ newEvents s' s''" by (rule usesFresh_events)
  from assms have f: "list_all freshUse (newEvents s s')" "list_all freshUse (newEvents s' s'')"
    by (simp_all add: usesFresh_def)
  from a b have e: "events s'' = events s @ (newEvents s s' @ newEvents s' s'')" by simp
  have "take (length (events s)) (events s'') = events s"
    by (subst e) simp
  moreover have "newEvents s s'' = newEvents s s' @ newEvents s' s''"
    unfolding newEvents_def [of s s''] by (subst e) simp
  ultimately show ?thesis using f by (simp add: usesFresh_def)
qed

lemma usesFresh_processWavelengthSet:
  "usesFresh s (stateOf (processWavelengthSet cfg texIndex s))"
proof -
  let ?s0 = "setVirtualSourceFile (TOTAL_SCATTERING_COEFFICIENT_SHADER_FILENAME cfg)
               (makeTotalScatteringCoefSrc cfg)
             (setVirtualSourceFile (PHASE_FUNCTIONS_SHADER_FILENAME cfg) (makePhaseFunctionsSrc cfg)
             (setVirtualSourceFile (COMPUTE_TRANSMITTANCE_SHADER_FILENAME cfg)
               (makeTransmittanceComputeFunctionsSrcText cfg (allWavelengths cfg ! texIndex))
             ((clearShaders s)\<lparr>constantsHeader := constHeaderText cfg (allWavelengths cfg ! texIndex)\<rparr>)))"
  let ?r = "andThen (computeTransmittance cfg texIndex ?s0)
              (\<lambda>s. andThen (computeDirectGroundIrradiance cfg texIndex s)
                       (computeMultipleScattering cfg texIndex))"
  have fresh0: "cacheFresh cfg ?s0"
    by (simp add: cacheFresh_def setVirtualSourceFile_def clearShaders_def)
  have ev0: "events ?s0 = events s"
    by (simp add: setVirtualSourceFile_def clearShaders_def)
  have "keepsFresh cfg ?s0 (stateOf ?r)"
    by (intro kf)
  with fresh0 have "take (length (events ?s0)) (events (stateOf ?r)) = events ?s0"
    and "list_all freshUse (newEvents ?s0 (stateOf ?r))"
    by (simp_all add: keepsFresh_def)
  with ev0 have "usesFresh s (stateOf ?r)"
    by (simp add: usesFresh_def newEvents_def)
  then show ?thesis
    by (simp add: processWavelengthSet_def Let_def)
qed

lemma usesFresh_forEach:
  assumes "\<And>x s1. usesFresh s1 (stateOf (body x s1))"
  shows "usesFresh s (stateOf (forEach xs body s))"
proof (induction xs arbitrary: s)
  case Nil
  show ?case by (simp add: usesFresh_refl)
next
  case (Cons x xs)
  show ?case
  proof (cases "body x s")
    case (Done s1)
    from assms [of s x] Done have "usesFresh s s1" by simp
    moreover have "usesFresh s1 (stateOf (forEach xs body s1))" by (rule Cons.IH)
    ultimately show ?thesis using Done by (simp add: usesFresh_trans)
  next
    case (Quit e s1)
    from assms [of s x] Quit show ?thesis by simp
  qed
qed

text \<open>
  Claim C8.  In every run of the loop of \<^verbatim>\<open>main\<close>, from any state and whether it completes
  or stops at an exception, every shader that \<^verbatim>\<open>getOrCompileShader\<close> returns was compiled
  from the source that \<^verbatim>\<open>getShaderSrc\<close> gives for its file name at that moment: each
  rewrite of a virtual source file comes right after the eviction of the entry of that
  name, or after the clearing of the whole table at the start of a wavelength set, so no
  entry outlives the text it was compiled from.
\<close>

theorem mainLoop_uses_fresh_shaders:
  "list_all freshUse (newEvents s (stateOf (mainLoop cfg s)))"
proof -
  have "usesFresh s (stateOf (mainLoop cfg s))"
    unfolding mainLoop_def
    by (rule usesFresh_forEach) (rule usesFresh_processWavelengthSet)
  then show ?thesis by (simp add: usesFresh_def)
qed

section \<open>Properties of the radiance-to-luminance matrix\<close>





lemma startsWith_nth:
  assumes "startsWith s p" and "i < length p"
  shows "i < length s \<and> s ! i = p ! i"
proof -
  from assms(1) have t: "take (length p) s = p" by (simp add: startsWith_def)
  then have "length (take (length p) s) = length p" by simp
  then have len: "length p \<le> length s" by simp
  from t have "take (length p) s ! i = p ! i" by simp
  with assms(2) have "s ! i = p ! i" by simp
  with len assms(2) show ?thesis by simp
qed

lemma no_agent_in_species:
  assumes "CHR ''#'' \<notin> set n" and "CHR ''#'' \<notin> set (take 6 rest)"
  shows "replaceAll ''agent##'' k (n @ rest) = n @ replaceAll ''agent##'' k rest"
  using assms(1)
proof (induction n)
  case Nil
  show ?case by simp
next
  case (Cons c n)
  have "\<not> startsWith (c # n @ rest) ''agent##''"
  proof
    assume "startsWith (c # n @ rest) ''agent##''"
    from startsWith_nth [OF this, of 5]
    have len: "5 < length (c # n @ rest)" and five: "(c # n @ rest) ! 5 = CHR ''#''"
      by simp_all
    show False
    proof (cases "5 < length (c # n)")
      case True
      then have "(c # n @ rest) ! 5 = (c # n) ! 5"
        by (metis append_Cons nth_append)
      with True five Cons.prems show False
        by (metis nth_mem)
    next
      case False
      then have "(c # n @ rest) ! 5 = rest ! (5 - length (c # n))"
        by (metis append_Cons nth_append)
      moreover from False len have "5 - length (c # n) < length rest" by simp
      moreover have "5 - length (c # n) < 6" by simp
      ultimately have "CHR ''#'' \<in> set (take 6 rest)"
        using five by (metis in_set_conv_nth length_take min_less_iff_conj nth_take)
      with assms(2) show False by simp
    qed
  qed
  with Cons show ?case by simp
qed

lemma startsWith_append_line:
  assumes "CHR 0x0A \<notin> set b" and "CHR 0x0A \<notin> set l"
  shows "startsWith (l @ CHR 0x0A # rest) b \<longleftrightarrow> startsWith l b"
proof
  assume s: "startsWith (l @ CHR 0x0A # rest) b"
  have "length b \<le> length l"
  proof (rule ccontr)
    assume "\<not> length b \<le> length l"
    then have i: "length l < length b" by simp
    from startsWith_nth [OF s i] have "(l @ CHR 0x0A # rest) ! length l = b ! length l" by simp
    then have "b ! length l = CHR 0x0A" by simp
    with i assms(1) show False by (metis nth_mem)
  qed
  with s show "startsWith l b" by (simp add: startsWith_def)
next
  assume s: "startsWith l b"
  then have "length (take (length b) l) = length b" by (simp add: startsWith_def)
  then have "length b \<le> length l" by simp
  with s show "startsWith (l @ CHR 0x0A # rest) b" by (simp add: startsWith_def)
qed

lemma replaceAll_line:
  assumes "b \<noteq> []" and "CHR 0x0A \<notin> set b"
  shows "CHR 0x0A \<notin> set l \<Longrightarrow>
     replaceAll b a (l @ CHR 0x0A # rest) = replaceAll b a l @ CHR 0x0A # replaceAll b a rest"
proof (induction l rule: length_induct)
  case (1 l)
  show ?case
  proof (cases l)
    case Nil
    from assms have "\<not> startsWith (CHR 0x0A # rest) b"
      by (cases b) (auto simp: startsWith_def)
    with assms(1) Nil show ?thesis by simp
  next
    case (Cons c cs)
    show ?thesis
    proof (cases "startsWith (c # cs) b")
      case True
      then have "length (take (length b) (c # cs)) = length b" by (simp add: startsWith_def)
      then have len: "length b \<le> length (c # cs)" by simp
      from True assms(2) "1.prems" Cons
      have full: "startsWith (c # cs @ CHR 0x0A # rest) b"
        using startsWith_append_line [of b "c # cs" rest] by simp
      from assms(1) have "length (drop (length b) (c # cs)) < length l"
        using Cons by (cases b) simp_all
      moreover have "CHR 0x0A \<notin> set (drop (length b) (c # cs))"
        using "1.prems" Cons by (metis in_set_dropD)
      ultimately have "replaceAll b a (drop (length b) (c # cs) @ CHR 0x0A # rest)
          = replaceAll b a (drop (length b) (c # cs)) @ CHR 0x0A # replaceAll b a rest"
        using "1.IH" by blast
      moreover from len have "drop (length b) (c # cs @ CHR 0x0A # rest)
          = drop (length b) (c # cs) @ CHR 0x0A # rest"
        by (metis append_Cons drop_append diff_is_0_eq drop0)
      ultimately show ?thesis
        using True full assms(1) Cons by simp
    next
      case False
      with assms(2) "1.prems" Cons
      have part: "\<not> startsWith (c # cs @ CHR 0x0A # rest) b"
        using startsWith_append_line [of b "c # cs" rest] by simp
      from "1.prems" Cons have "CHR 0x0A \<notin> set cs" by simp
      moreover have "length cs < length l" using Cons by simp
      ultimately have "replaceAll b a (cs @ CHR 0x0A # rest)
          = replaceAll b a cs @ CHR 0x0A # replaceAll b a rest"
        using "1.IH" by blast
      with False part assms(1) Cons show ?thesis by simp
    qed
  qed
qed

lemma replaceAll_unlinesNL:
  assumes "b \<noteq> []" and "CHR 0x0A \<notin> set b"
  shows "(\<forall>l \<in> set ls. CHR 0x0A \<notin> set l) \<Longrightarrow>
     replaceAll b a (unlinesNL ls) = unlinesNL (map (replaceAll b a) ls)"
proof (induction ls)
  case Nil
  with assms(1) show ?case by (simp add: unlinesNL_def)
next
  case (Cons l ls)
  then have "replaceAll b a (unlinesNL ls) = unlinesNL (map (replaceAll b a) ls)"
    and "CHR 0x0A \<notin> set l" by simp_all
  with replaceAll_line [OF assms, of l a "unlinesNL ls"] show ?case
    by (simp add: unlinesNL_def)
qed

lemma template_lines: "opticalDepthFunctionTemplate = unlinesNL templateLines"
  by (simp add: opticalDepthFunctionTemplate_def templateLines_def unlinesNL_def)

lemma template_first_pass:
  "CHR 0x0A \<notin> set species \<Longrightarrow>
     replaceAll ''##agentSpecies'' species opticalDepthFunctionTemplate
       = unlinesNL (opticalDepthLines ''agent##'' species)"
  unfolding template_lines
  apply (subst replaceAll_unlinesNL)
     apply simp
    apply simp
   apply (simp add: templateLines_def)
  apply (simp add: templateLines_def opticalDepthLines_def startsWith_def)
  done

lemma template_substituted:
  assumes "CHR ''#'' \<notin> set species" and "CHR 0x0A \<notin> set species"
  shows "replaceAll ''agent##'' kind (replaceAll ''##agentSpecies'' species opticalDepthFunctionTemplate)
           = unlinesNL (opticalDepthLines kind species)"
  unfolding template_first_pass [OF assms(2)]
  apply (subst replaceAll_unlinesNL)
     apply simp
    apply simp
   apply (simp add: opticalDepthLines_def assms)
  apply (simp add: opticalDepthLines_def startsWith_def no_agent_in_species assms)
  done

lemma read_lines_append_line:
  "read_lines cur (P @ CHR 0x0A # R) = read_lines cur (P @ [CHR 0x0A]) @ read_lines [] R"
  by (induction P arbitrary: cur) simp_all

lemma readLines_append:
  assumes "P = [] \<or> last P = CHR 0x0A"
  shows "readLines (P @ R) = readLines P @ readLines R"
proof (cases "P = []")
  case True
  then show ?thesis by (simp add: readLines_def)
next
  case False
  with assms have "P = butlast P @ [CHR 0x0A]"
    by (metis append_butlast_last_id)
  then obtain Q where "P = Q @ [CHR 0x0A]" ..
  then show ?thesis
    using read_lines_append_line [of "[]" Q R] by (simp add: readLines_def)
qed

lemma read_lines_unlines:
  "CHR 0x0D \<notin> set cur \<Longrightarrow> CHR 0x0D \<notin> set R \<Longrightarrow>
   (if R = [] then cur = [] else last R = CHR 0x0A) \<Longrightarrow>
     unlinesNL (read_lines cur R) = cur @ R"
proof (induction R arbitrary: cur)
  case Nil
  then show ?case by (simp add: unlinesNL_def)
next
  case (Cons c cs)
  show ?case
  proof (cases "c = CHR 0x0A")
    case True
    have "cur \<noteq> [] \<longrightarrow> last cur \<noteq> CHR 0x0D"
      using Cons.prems(1) by (metis last_in_set)
    then have s: "strip_cr cur = cur" by (auto simp: strip_cr_def)
    have "unlinesNL (read_lines [] cs) = [] @ cs"
      using Cons.prems by (intro Cons.IH) (auto split: if_splits)
    with True s show ?thesis by (simp add: unlinesNL_def)
  next
    case False
    with Cons.prems(3) have ne: "cs \<noteq> []" by auto
    have "unlinesNL (read_lines (cur @ [c]) cs) = (cur @ [c]) @ cs"
      using Cons.prems ne by (intro Cons.IH) (auto split: if_splits)
    with False show ?thesis by simp
  qed
qed

lemma read_lines_chars:
  "l \<in> set (read_lines cur R) \<Longrightarrow> set l \<subseteq> set cur \<union> set R"
proof (induction R arbitrary: cur)
  case Nil
  then show ?case
    by (auto simp: strip_cr_def dest: in_set_butlastD split: if_splits)
next
  case (Cons c cs)
  show ?case
  proof (cases "c = CHR 0x0A")
    case True
    with Cons.prems have "l = strip_cr cur \<or> l \<in> set (read_lines [] cs)" by simp
    then show ?thesis
    proof
      assume "l = strip_cr cur"
      then show ?thesis by (auto simp: strip_cr_def dest: in_set_butlastD split: if_splits)
    next
      assume "l \<in> set (read_lines [] cs)"
      from Cons.IH [OF this] show ?thesis by auto
    qed
  next
    case False
    with Cons.prems have "l \<in> set (read_lines (cur @ [c]) cs)" by simp
    from Cons.IH [OF this] show ?thesis by auto
  qed
qed

lemma simplified_from_chars: "set (simplified_from pending s) \<subseteq> insert (CHR '' '') (set s)"
  by (induction pending s rule: simplified_from.induct) auto

lemma not_include_line:
  assumes "CHR ''#'' \<notin> set l"
  shows "\<not> startsWith (simplified l) (''#include '' @ [CHR 0x22])"
proof
  assume s: "startsWith (simplified l) (''#include '' @ [CHR 0x22])"
  from startsWith_nth [OF s, of 0] have "0 < length (simplified l)" and "simplified l ! 0 = CHR ''#''"
    by simp_all
  then have "CHR ''#'' \<in> set (simplified l)" by (metis nth_mem)
  then have "CHR ''#'' \<in> insert (CHR '' '') (set (dropWhile is_space l))"
    using simplified_from_chars [of False "dropWhile is_space l"] by (auto simp: simplified_def)
  then have "CHR ''#'' \<in> set (dropWhile is_space l)" by simp
  then have "CHR ''#'' \<in> set l" by (metis set_dropWhileD)
  with assms show False by simp
qed

lemma includeLoop_plain:
  "(\<forall>l \<in> set ls. CHR ''#'' \<notin> set l) \<Longrightarrow>
     includeLoop rd ch dh fn ls lno hn acc = Inr (acc @ unlinesNL ls)"
proof (induction ls arbitrary: lno hn acc)
  case Nil
  then show ?case by (simp add: unlinesNL_def)
next
  case (Cons l ls)
  then have "CHR ''#'' \<notin> set l" by simp
  from not_include_line [OF this] Cons show ?case by (simp add: unlinesNL_def)
qed

lemma includeLoop_append:
  "(\<forall>l \<in> set ls2. CHR ''#'' \<notin> set l) \<Longrightarrow>
     includeLoop rd ch dh fn (ls1 @ ls2) lno hn acc =
       (case includeLoop rd ch dh fn ls1 lno hn acc of
          Inl e \<Rightarrow> Inl e
        | Inr out \<Rightarrow> Inr (out @ unlinesNL ls2))"
proof (induction ls1 arbitrary: lno hn acc)
  case Nil
  then show ?case by (simp add: includeLoop_plain)
next
  case (Cons l ls1)
  then show ?case by (simp split: option.splits sum.splits)
qed

lemma withHeadersIncluded_append_plain:
  assumes "P = [] \<or> last P = CHR 0x0A"
    and "R = [] \<or> last R = CHR 0x0A"
    and "CHR ''#'' \<notin> set R" and "CHR 0x0D \<notin> set R"
  shows "withHeadersIncluded rd ch dh (P @ R) fn =
           (case withHeadersIncluded rd ch dh P fn of
              Inl e \<Rightarrow> Inl e
            | Inr out \<Rightarrow> Inr (out @ R))"
proof -
  have plain: "\<forall>l \<in> set (readLines R). CHR ''#'' \<notin> set l"
    using read_lines_chars [of _ "[]" R] assms(3) by (auto simp: readLines_def)
  have "unlinesNL (readLines R) = R"
    using read_lines_unlines [of "[]" R] assms(2,4) by (auto simp: readLines_def)
  with includeLoop_append [OF plain, of rd ch dh fn "readLines P" 1 1 "[]"]
  show ?thesis
    by (simp add: withHeadersIncluded_def readLines_append [OF assms(1)] split: sum.splits)
qed

lemma densitiesLoop_end:
  "(snd acc = [] \<or> last (snd acc) = CHR 0x0A) \<Longrightarrow>
     snd (densitiesLoop prefix species acc) = [] \<or> last (snd (densitiesLoop prefix species acc)) = CHR 0x0A"
  by (induction prefix species acc rule: densitiesLoop.induct) simp_all

lemma makeDensitiesFunctions_end:
  "last (head @ fst (makeDensitiesFunctions cfg dh)) = CHR 0x0A"
proof -
  let ?d = "densitiesLoop ''float absorberNumberDensity_'' (absorbers cfg)
             (densitiesLoop ''float scattererNumberDensity_'' (scatterers cfg) ([], []))"
  have "snd ?d = [] \<or> last (snd ?d) = CHR 0x0A"
    by (intro densitiesLoop_end) simp
  moreover have "fst (makeDensitiesFunctions cfg dh) = snd ?d"
    by (simp add: makeDensitiesFunctions_def split: prod.splits)
  moreover have "last head = CHR 0x0A" by (simp add: head_def)
  moreover have "head \<noteq> []" by (simp add: head_def)
  ultimately show ?thesis by (auto simp: last_append)
qed

lemma transmittanceLoop_eq:
  "transmittanceLoop cfg w agent species (fs, cf) =
     (fs @ concat (map (\<lambda>s. replaceAll ''agent##'' agent
                         (replaceAll ''##agentSpecies'' (name s) opticalDepthFunctionTemplate)) species),
      cf @ concat (map (depthTerm cfg w) species))"
  by (induction species arbitrary: fs cf) (simp_all add: depthTerm_def)

lemma opticalDepthFunction_chars:
  assumes "plainText (name s)" and "CHR ''#'' \<notin> set kind" and "CHR 0x0D \<notin> set kind"
  shows "CHR ''#'' \<notin> set (opticalDepthFunction kind s) \<and> CHR 0x0D \<notin> set (opticalDepthFunction kind s)"
  using assms by (simp add: opticalDepthFunction_def opticalDepthLines_def unlinesNL_def plainText_def)

lemma depthTerm_chars:
  assumes "plainText (name s)" and "plainText (toString cfg (crossSection s w))"
  shows "CHR ''#'' \<notin> set (depthTerm cfg w s) \<and> CHR 0x0D \<notin> set (depthTerm cfg w s)"
  using assms by (simp add: depthTerm_def plainText_def)

lemma substituted_functions:
  "(\<forall>s \<in> set xs. plainText (name s)) \<Longrightarrow>
     map (\<lambda>s. replaceAll ''agent##'' kind
                 (replaceAll ''##agentSpecies'' (name s) opticalDepthFunctionTemplate)) xs
       = map (opticalDepthFunction kind) xs"
  by (simp add: template_substituted opticalDepthFunction_def plainText_def)

lemma transmittanceSource_text:
  assumes "\<forall>s \<in> set (scatterers cfg @ absorbers cfg). plainText (name s)"
  shows "transmittanceSourceBeforeInclusion cfg dh w =
           (head @ fst (makeDensitiesFunctions cfg dh))
           @ (concat (map (opticalDepthFunction ''scatterer'') (scatterers cfg))
              @ concat (map (opticalDepthFunction ''absorber'') (absorbers cfg))
              @ computeFunctionStart
              @ concat (map (depthTerm cfg w) (scatterers cfg @ absorbers cfg)))
           @ computeFunctionEnd"
proof -
  from assms have "\<forall>s \<in> set (scatterers cfg). plainText (name s)"
    and "\<forall>s \<in> set (absorbers cfg). plainText (name s)" by simp_all
  then show ?thesis
    by (simp add: transmittanceSourceBeforeInclusion_def transmittanceLoop_eq
        substituted_functions)
qed

lemma generated_text_chars:
  assumes "\<forall>s \<in> set (scatterers cfg @ absorbers cfg).
             plainText (name s) \<and> plainText (toString cfg (crossSection s w))"
  shows "CHR ''#'' \<notin> set (concat (map (opticalDepthFunction ''scatterer'') (scatterers cfg))
              @ concat (map (opticalDepthFunction ''absorber'') (absorbers cfg))
              @ computeFunctionStart
              @ concat (map (depthTerm cfg w) (scatterers cfg @ absorbers cfg)))"
    and "CHR 0x0D \<notin> set (concat (map (opticalDepthFunction ''scatterer'') (scatterers cfg))
              @ concat (map (opticalDepthFunction ''absorber'') (absorbers cfg))
              @ computeFunctionStart
              @ concat (map (depthTerm cfg w) (scatterers cfg @ absorbers cfg)))"
proof -
  have s: "CHR ''#'' \<notin> set (opticalDepthFunction ''scatterer'' x)
      \<and> CHR 0x0D \<notin> set (opticalDepthFunction ''scatterer'' x)"
    if "x \<in> set (scatterers cfg)" for x
    using that assms by (intro opticalDepthFunction_chars) simp_all
  have a: "CHR ''#'' \<notin> set (opticalDepthFunction ''absorber'' x)
      \<and> CHR 0x0D \<notin> set (opticalDepthFunction ''absorber'' x)"
    if "x \<in> set (absorbers cfg)" for x
    using that assms by (intro opticalDepthFunction_chars) simp_all
  have t: "CHR ''#'' \<notin> set (depthTerm cfg w x) \<and> CHR 0x0D \<notin> set (depthTerm cfg w x)"
    if "x \<in> set (scatterers cfg @ absorbers cfg)" for x
    using that assms by (intro depthTerm_chars) simp_all
  have c: "CHR ''#'' \<notin> set computeFunctionStart \<and> CHR 0x0D \<notin> set computeFunctionStart"
    by (simp add: computeFunctionStart_def)
  show "CHR ''#'' \<notin> set (concat (map (opticalDepthFunction ''scatterer'') (scatterers cfg))
              @ concat (map (opticalDepthFunction ''absorber'') (absorbers cfg))
              @ computeFunctionStart
              @ concat (map (depthTerm cfg w) (scatterers cfg @ absorbers cfg)))"
    using s a t c by auto
  show "CHR 0x0D \<notin> set (concat (map (opticalDepthFunction ''scatterer'') (scatterers cfg))
              @ concat (map (opticalDepthFunction ''absorber'') (absorbers cfg))
              @ computeFunctionStart
              @ concat (map (depthTerm cfg w) (scatterers cfg @ absorbers cfg)))"
    using s a t c by auto
qed

lemma example_species:
  "scatterers transmittanceExample
     = [\<lparr>name = ''air'', numberDensity = ''    return 1;\<newline>'', crossSection = (\<lambda>w. w)\<rparr>]"
  "absorbers transmittanceExample
     = [\<lparr>name = ''ozone'', numberDensity = ''    return 2;\<newline>'', crossSection = (\<lambda>w. w)\<rparr>]"
  "toString transmittanceExample = (\<lambda>v. ''vec4(1,2,3,4)'')"
  by (simp_all add: transmittanceExample_def)

lemma example_declarations:
  "withHeadersIncluded (getShaderSrc transmittanceDir) ''const float earthRadius=1;\<newline>''
       (snd (makeDensitiesFunctions transmittanceExample []))
       (head @ fst (makeDensitiesFunctions transmittanceExample []))
       (''(virtual)'' @ COMPUTE_TRANSMITTANCE_SHADER_FILENAME transmittanceExample)
     = Inr transmittanceDeclarations"
  by code_simp

text \<open>
  Claim C2.  When the names of the species and the printed cross-sections have neither a
  number sign nor a line break, the transmittance source is the exception of header
  inclusion in the heading and the density functions, or else their text with headers
  included, followed by one optical-depth function per species, the scatterers first and the
  absorbers after them, each the template with its tokens replaced by the kind and the name
  of the species, and by the function \<^verbatim>\<open>computeTransmittanceToAtmosphereBorder\<close>: the sum
  \<^verbatim>\<open>depth\<close> of one term per species in the same order, the optical-depth function of the
  species applied to its cross-section at the wavelengths as a printed vector, and
  \<^verbatim>\<open>return exp(-depth)\<close>.
\<close>

theorem makeTransmittanceComputeFunctionsSrc_text:
  assumes "\<forall>s \<in> set (scatterers cfg @ absorbers cfg).
             plainText (name s) \<and> plainText (toString cfg (crossSection s wavelengths))"
  shows "fst (makeTransmittanceComputeFunctionsSrc cfg rd ch dh wavelengths) =
           (case withHeadersIncluded rd ch (snd (makeDensitiesFunctions cfg dh))
                   (head @ fst (makeDensitiesFunctions cfg dh))
                   (''(virtual)'' @ COMPUTE_TRANSMITTANCE_SHADER_FILENAME cfg) of
              Inl e \<Rightarrow> Inl e
            | Inr declarations \<Rightarrow>
                Inr (declarations
                     @ concat (map (opticalDepthFunction ''scatterer'') (scatterers cfg))
                     @ concat (map (opticalDepthFunction ''absorber'') (absorbers cfg))
                     @ computeFunctionStart
                     @ concat (map (depthTerm cfg wavelengths) (scatterers cfg @ absorbers cfg))
                     @ computeFunctionEnd))"
proof -
  let ?P = "head @ fst (makeDensitiesFunctions cfg dh)"
  let ?M = "concat (map (opticalDepthFunction ''scatterer'') (scatterers cfg))
              @ concat (map (opticalDepthFunction ''absorber'') (absorbers cfg))
              @ computeFunctionStart
              @ concat (map (depthTerm cfg wavelengths) (scatterers cfg @ absorbers cfg))"
  from assms have names: "\<forall>s \<in> set (scatterers cfg @ absorbers cfg). plainText (name s)"
    by blast
  have src: "transmittanceSourceBeforeInclusion cfg dh wavelengths = ?P @ (?M @ computeFunctionEnd)"
    using transmittanceSource_text [OF names, of dh wavelengths] by simp
  have p: "?P = [] \<or> last ?P = CHR 0x0A"
    using makeDensitiesFunctions_end [of cfg dh] by simp
  have e: "computeFunctionEnd \<noteq> [] \<and> last computeFunctionEnd = CHR 0x0A
      \<and> CHR ''#'' \<notin> set computeFunctionEnd \<and> CHR 0x0D \<notin> set computeFunctionEnd"
    by (simp add: computeFunctionEnd_def)
  then have r: "?M @ computeFunctionEnd = [] \<or> last (?M @ computeFunctionEnd) = CHR 0x0A"
    by simp
  from generated_text_chars [OF assms] e
  have h: "CHR ''#'' \<notin> set (?M @ computeFunctionEnd)"
    and c: "CHR 0x0D \<notin> set (?M @ computeFunctionEnd)"
    by simp_all
  have "withHeadersIncluded rd ch (snd (makeDensitiesFunctions cfg dh))
          (?P @ (?M @ computeFunctionEnd))
          (''(virtual)'' @ COMPUTE_TRANSMITTANCE_SHADER_FILENAME cfg) =
        (case withHeadersIncluded rd ch (snd (makeDensitiesFunctions cfg dh)) ?P
                (''(virtual)'' @ COMPUTE_TRANSMITTANCE_SHADER_FILENAME cfg) of
           Inl e \<Rightarrow> Inl e
         | Inr out \<Rightarrow> Inr (out @ (?M @ computeFunctionEnd)))"
    by (rule withHeadersIncluded_append_plain [OF p r h c])
  then show ?thesis
    unfolding makeTransmittanceComputeFunctionsSrc_def fst_conv src
    by (simp split: sum.splits)
qed

theorem makeTransmittanceComputeFunctionsSrc_text_witness:
  "fst (makeTransmittanceComputeFunctionsSrc transmittanceExample (getShaderSrc transmittanceDir)
          ''const float earthRadius=1;\<newline>'' [] (Vec4 380 400 420 440))
     = Inr (transmittanceDeclarations
            @ unlinesNL (opticalDepthLines ''scatterer'' ''air'')
            @ unlinesNL (opticalDepthLines ''absorber'' ''ozone'')
            @ computeFunctionStart
            @ ''        +opticalDepthToAtmosphereBorder_air(altitude,cosZenithAngle,vec4(1,2,3,4))\<newline>''
            @ ''        +opticalDepthToAtmosphereBorder_ozone(altitude,cosZenithAngle,vec4(1,2,3,4))\<newline>''
            @ computeFunctionEnd)"
proof -
  have species: "\<forall>s \<in> set (scatterers transmittanceExample @ absorbers transmittanceExample).
      plainText (name s)
      \<and> plainText (toString transmittanceExample (crossSection s (Vec4 380 400 420 440)))"
    by (simp add: example_species plainText_def)
  have "fst (makeTransmittanceComputeFunctionsSrc transmittanceExample
               (getShaderSrc transmittanceDir) ''const float earthRadius=1;\<newline>'' []
               (Vec4 380 400 420 440))
      = Inr (transmittanceDeclarations
             @ concat (map (opticalDepthFunction ''scatterer'') (scatterers transmittanceExample))
             @ concat (map (opticalDepthFunction ''absorber'') (absorbers transmittanceExample))
             @ computeFunctionStart
             @ concat (map (depthTerm transmittanceExample (Vec4 380 400 420 440))
                         (scatterers transmittanceExample @ absorbers transmittanceExample))
             @ computeFunctionEnd)"
    using makeTransmittanceComputeFunctionsSrc_text
            [OF species, of "getShaderSrc transmittanceDir"
               "''const float earthRadius=1;\<newline>''" "[]"]
    by (simp only: example_declarations sum.case)
  then show ?thesis
    by (simp add: example_species opticalDepthFunction_def depthTerm_def)
qed

end
